theory Spec2Isabelle
  imports Main "HOL-Library.Word"
begin

section \<open>Data model (cmd/connection.go)\<close>

text \<open>
  \<^verbatim>\<open>ConnectionInfo\<close> is the registry record. \<^verbatim>\<open>PID\<close> is a Go \<^verbatim>\<open>int\<close> (64 bits, read
  with \<open>sint\<close>), \<^verbatim>\<open>RemotePort\<close> an \<^verbatim>\<open>int32\<close>, \<^verbatim>\<open>LocalPort\<close> a string.

  A Go string is taken to hold text: a \<open>char\<close> of a field stands for the Unicode code
  point of the same number (U+0000 to U+00FF). The bytes of a file are \<open>char\<close>s as well,
  one per byte.
\<close>

record ConnectionInfo =
  PID :: "64 word"
  ServiceName :: string
  Namespace :: string
  LocalPort :: string
  RemotePort :: "32 word"
  PodName :: string
  Kubeconfig :: string
  Status :: string

text \<open>
  Errors of every command, one constructor per \<^verbatim>\<open>fmt.Errorf\<close> site; wrapped errors keep
  the error they wrap.
\<close>

datatype error =
    MkdirFailed
  | ReadFailed
  | ParseFailed
  | WriteFailed
  | ConnectionNotFound
  | MissingRequiredFlags
  | BuildConfigFailed
  | InvalidRemotePort
  | PortForwardFailedToStart string
  | PortForwardTimedOut
  | PortForwardError string
  | KubeconfigNotFound
  | ClientsetFailed
  | GetServiceFailed
  | NoSelector
  | ListPodsFailed
  | NoPodsFound
  | AlreadyExists string
  | ExecutableFailed
  | StartDaemonFailed
  | DaemonExitedImmediately "64 word"
  | SaveConnectionInfoFailed error
  | DisconnectNotFound
  | FindProcessFailed "64 word"
  | KillProcessFailed "64 word"
  | ForegroundFailed string
  | RemoveConnectionFailed error

section \<open>Bytes and decimal integers (strconv)\<close>

text \<open>The number of a byte or code point, and the byte or code point of a number.\<close>

definition byte :: "nat \<Rightarrow> char" where
  "byte n = char_of n"

definition code :: "char \<Rightarrow> nat" where
  "code c = of_char c"

text \<open>
  \<^verbatim>\<open>strconv.ParseInt(s, 10, bitSize)\<close>: an optional sign, then one or more decimal digits,
  nothing else; a value outside the range of \<open>bitSize\<close> bits is an error.
  \<^verbatim>\<open>strconv.Itoa\<close>: the decimal digits of an integer, with a minus sign when negative.
\<close>

definition is_digit :: "char \<Rightarrow> bool" where
  "is_digit c = (48 \<le> code c \<and> code c \<le> 57)"

definition digit_val :: "char \<Rightarrow> int" where
  "digit_val c = int (code c) - 48"

fun parse_digits :: "int \<Rightarrow> string \<Rightarrow> int option" where
  "parse_digits acc [] = Some acc"
| "parse_digits acc (c # cs) =
     (if is_digit c then parse_digits (acc * 10 + digit_val c) cs else None)"

definition ParseUint :: "string \<Rightarrow> int option" where
  "ParseUint s = (if s = [] then None else parse_digits 0 s)"

definition ParseInt :: "string \<Rightarrow> nat \<Rightarrow> int option" where
  "ParseInt s bitSize =
     (case s of
        [] \<Rightarrow> None
      | c # cs \<Rightarrow>
          (let neg = (code c = 0x2D);
               body = (if code c = 0x2B \<or> code c = 0x2D then cs else s);
               cutoff = 2 ^ (bitSize - 1)
           in case ParseUint body of
                None \<Rightarrow> None
              | Some n \<Rightarrow>
                  if \<not> neg \<and> n \<ge> cutoff then None
                  else if neg \<and> n > cutoff then None
                  else Some (if neg then - n else n)))"

fun digits_of :: "nat \<Rightarrow> string" where
  "digits_of n = (if n < 10 then [byte (48 + n)]
                  else digits_of (n div 10) @ [byte (48 + n mod 10)])"

declare digits_of.simps [simp del]

definition Itoa :: "int \<Rightarrow> string" where
  "Itoa i = (if i < 0 then byte 0x2D # digits_of (nat (- i)) else digits_of (nat i))"


section \<open>The JSON document of the registry (encoding/json)\<close>

text \<open>
  \<^verbatim>\<open>json.MarshalIndent(connections, "", "  ")\<close> and \<^verbatim>\<open>json.Unmarshal\<close> for a slice of
  \<^verbatim>\<open>ConnectionInfo\<close>. The writer produces the text Go produces: \<^verbatim>\<open>null\<close> for a nil
  slice (the only empty slice the program saves), otherwise one object per record, members
  in field order under their \<^verbatim>\<open>json\<close> tags, two spaces per indent level. In a string the
  quote and the backslash are escaped, the control characters are written as \<^verbatim>\<open>\b \f \n
  \r \t\<close> or \<^verbatim>\<open>\u00XX\<close>, the characters \<^verbatim>\<open>< > &\<close> as \<^verbatim>\<open>\u00XX\<close>, and a code point
  from U+0080 on as its two UTF-8 bytes.

  The reader accepts JSON documents of that shape with any white space between tokens:
  \<^verbatim>\<open>null\<close>, or an array of objects whose members are among the eight tags, in any order,
  later members overriding earlier ones, absent members left at the zero value. Strings may
  use every JSON escape; code points above U+00FF are outside the model, as are members
  with other names or values of other kinds, and a document that has them is rejected.
\<close>

text \<open>
  Writing a string. The bytes are given by number: 0x22 is the quote, 0x5C the backslash,
  0x62 0x66 0x6E 0x72 0x74 0x75 the letters b f n r t u, 0x30 the digit zero.
\<close>

definition hex_digit :: "nat \<Rightarrow> char" where
  "hex_digit n = (if n < 10 then byte (48 + n) else byte (87 + n))"

definition hex_val :: "char \<Rightarrow> nat option" where
  "hex_val c =
     (let n = code c in
      if 48 \<le> n \<and> n \<le> 57 then Some (n - 48)
      else if 97 \<le> n \<and> n \<le> 102 then Some (n - 87)
      else if 65 \<le> n \<and> n \<le> 70 then Some (n - 55)
      else None)"

definition json_escape :: "char \<Rightarrow> string" where
  "json_escape c =
     (let n = code c in
      if n = 0x22 then [byte 0x5C, byte 0x22]
      else if n = 0x5C then [byte 0x5C, byte 0x5C]
      else if n = 0x08 then [byte 0x5C, byte 0x62]
      else if n = 0x0C then [byte 0x5C, byte 0x66]
      else if n = 0x0A then [byte 0x5C, byte 0x6E]
      else if n = 0x0D then [byte 0x5C, byte 0x72]
      else if n = 0x09 then [byte 0x5C, byte 0x74]
      else if n < 0x20 \<or> n = 0x3C \<or> n = 0x3E \<or> n = 0x26
           then [byte 0x5C, byte 0x75, byte 0x30, byte 0x30, hex_digit (n div 16), hex_digit (n mod 16)]
      else if n < 0x80 then [c]
      else [byte (0xC0 + n div 64), byte (0x80 + n mod 64)])"

definition json_string :: "string \<Rightarrow> string" where
  "json_string s = byte 0x22 # concat (map json_escape s) @ [byte 0x22]"

text \<open>
  Reading a string, after its opening quote: \<open>read_char\<close> reads one character, escaped or
  not, and \<open>unquote\<close> reads characters up to the closing quote. It returns the string
  and the input after the quote.
\<close>

definition simple_escape :: "char \<Rightarrow> char option" where
  "simple_escape e =
     (if code e = 0x22 then Some (byte 0x22)
      else if code e = 0x5C then Some (byte 0x5C)
      else if code e = 0x2F then Some (byte 0x2F)
      else if code e = 0x62 then Some (byte 0x08)
      else if code e = 0x66 then Some (byte 0x0C)
      else if code e = 0x6E then Some (byte 0x0A)
      else if code e = 0x72 then Some (byte 0x0D)
      else if code e = 0x74 then Some (byte 0x09)
      else None)"

definition read_hex4 :: "string \<Rightarrow> (char \<times> string) option" where
  "read_hex4 cs =
     (case cs of
        h1 # h2 # h3 # h4 # cs2 \<Rightarrow>
          (case (hex_val h1, hex_val h2, hex_val h3, hex_val h4) of
             (Some a, Some b, Some c, Some d) \<Rightarrow>
               if a = 0 \<and> b = 0 then Some (byte (16 * c + d), cs2) else None
           | _ \<Rightarrow> None)
      | _ \<Rightarrow> None)"

definition read_escape :: "string \<Rightarrow> (char \<times> string) option" where
  "read_escape cs =
     (case cs of
        [] \<Rightarrow> None
      | e # cs1 \<Rightarrow>
          if code e = 0x75 then read_hex4 cs1
          else map_option (\<lambda>x. (x, cs1)) (simple_escape e))"

definition read_utf8 :: "nat \<Rightarrow> string \<Rightarrow> (char \<times> string) option" where
  "read_utf8 n cs =
     (case cs of
        [] \<Rightarrow> None
      | t # cs1 \<Rightarrow>
          if 0x80 \<le> code t \<and> code t < 0xC0
          then Some (byte ((n - 0xC0) * 64 + (code t - 0x80)), cs1)
          else None)"

definition read_char :: "char \<Rightarrow> string \<Rightarrow> (char \<times> string) option" where
  "read_char c cs =
     (let n = code c in
      if n = 0x5C then read_escape cs
      else if n < 0x20 then None
      else if n < 0x80 then Some (c, cs)
      else if n = 0xC2 \<or> n = 0xC3 then read_utf8 n cs
      else None)"

lemma read_hex4_length: "read_hex4 cs = Some (x, r) \<Longrightarrow> length r \<le> length cs"
  by (auto simp add: read_hex4_def split: list.splits option.splits if_splits)

lemma read_escape_length: "read_escape cs = Some (x, r) \<Longrightarrow> length r \<le> length cs"
  by (auto simp add: read_escape_def split: list.splits if_splits dest: read_hex4_length)

lemma read_utf8_length: "read_utf8 n cs = Some (x, r) \<Longrightarrow> length r \<le> length cs"
  by (auto simp add: read_utf8_def split: list.splits if_splits)

lemma read_char_length: "read_char c cs = Some (x, r) \<Longrightarrow> length r \<le> length cs"
  by (auto simp add: read_char_def Let_def split: if_splits
           dest: read_escape_length read_utf8_length)

function unquote :: "string \<Rightarrow> (string \<times> string) option" where
  "unquote [] = None"
| "unquote (c # cs) =
     (if code c = 0x22 then Some ([], cs)
      else case read_char c cs of
             None \<Rightarrow> None
           | Some (x, r) \<Rightarrow> map_option (\<lambda>(s, r'). (x # s, r')) (unquote r))"
  by pat_completeness auto

termination
  by (relation "measure length") (auto dest: read_char_length)

lemma unquote_length: "unquote inp = Some (s, r) \<Longrightarrow> length r < length inp"
proof (induction inp arbitrary: s r rule: unquote.induct)
  case 1
  then show ?case by simp
next
  case (2 c cs)
  show ?case
  proof (cases "code c = 0x22")
    case True
    then show ?thesis using "2.prems" by auto
  next
    case False
    then obtain x r1 s1 where rc: "read_char c cs = Some (x, r1)"
      and u: "unquote r1 = Some (s1, r)"
      using "2.prems" by (auto split: option.splits)
    have "length r < length r1" using "2.IH"[OF False rc refl u] .
    then show ?thesis using read_char_length[OF rc] by simp
  qed
qed

text \<open>
  White space between tokens, a string token, and an integer token: an optional minus
  sign and digits without a leading zero, not followed by a fraction or an exponent,
  converted by \<^verbatim>\<open>strconv.ParseInt\<close> at the size of the field.
\<close>

definition is_ws :: "char \<Rightarrow> bool" where
  "is_ws c = (code c = 0x20 \<or> code c = 0x09 \<or> code c = 0x0A \<or> code c = 0x0D)"

definition skip_ws :: "string \<Rightarrow> string" where
  "skip_ws inp = dropWhile is_ws inp"

definition parse_string :: "string \<Rightarrow> (string \<times> string) option" where
  "parse_string inp =
     (case skip_ws inp of
        [] \<Rightarrow> None
      | c # r \<Rightarrow> if code c = 0x22 then unquote r else None)"

definition scan_int :: "string \<Rightarrow> (string \<times> string) option" where
  "scan_int inp =
     (case skip_ws inp of
        [] \<Rightarrow> None
      | c # r \<Rightarrow>
          (let neg = (code c = 0x2D);
               body = (if neg then r else c # r);
               ds = takeWhile is_digit body;
               rest = dropWhile is_digit body
           in if ds = [] then None
              else if length ds > 1 \<and> code (hd ds) = 0x30 then None
              else if rest \<noteq> [] \<and> (code (hd rest) = 0x2E \<or> code (hd rest) = 0x65
                                    \<or> code (hd rest) = 0x45) then None
              else Some ((if neg then [c] else []) @ ds, rest)))"

definition parse_int :: "nat \<Rightarrow> string \<Rightarrow> (int \<times> string) option" where
  "parse_int bitSize inp =
     (case scan_int inp of
        None \<Rightarrow> None
      | Some (lit, rest) \<Rightarrow> map_option (\<lambda>v. (v, rest)) (ParseInt lit bitSize))"

text \<open>The value of a member, read according to its tag and stored in the record.\<close>

definition read_member ::
  "string \<Rightarrow> ConnectionInfo \<Rightarrow> string \<Rightarrow> (ConnectionInfo \<times> string) option" where
  "read_member k c inp =
     (if k = ''pid''
      then map_option (\<lambda>(v, r). (c\<lparr>PID := word_of_int v\<rparr>, r)) (parse_int 64 inp)
      else if k = ''service_name''
      then map_option (\<lambda>(v, r). (c\<lparr>ServiceName := v\<rparr>, r)) (parse_string inp)
      else if k = ''namespace''
      then map_option (\<lambda>(v, r). (c\<lparr>Namespace := v\<rparr>, r)) (parse_string inp)
      else if k = ''local_port''
      then map_option (\<lambda>(v, r). (c\<lparr>LocalPort := v\<rparr>, r)) (parse_string inp)
      else if k = ''remote_port''
      then map_option (\<lambda>(v, r). (c\<lparr>RemotePort := word_of_int v\<rparr>, r)) (parse_int 32 inp)
      else if k = ''pod_name''
      then map_option (\<lambda>(v, r). (c\<lparr>PodName := v\<rparr>, r)) (parse_string inp)
      else if k = ''kubeconfig''
      then map_option (\<lambda>(v, r). (c\<lparr>Kubeconfig := v\<rparr>, r)) (parse_string inp)
      else if k = ''status''
      then map_option (\<lambda>(v, r). (c\<lparr>Status := v\<rparr>, r)) (parse_string inp)
      else None)"

lemma skip_ws_length: "length (skip_ws x) \<le> length x"
  by (simp add: skip_ws_def length_dropWhile_le)

lemma parse_string_length: "parse_string inp = Some (s, r) \<Longrightarrow> length r < length inp"
  using skip_ws_length[of inp]
  by (auto simp add: parse_string_def split: list.splits if_splits dest!: unquote_length)

lemma scan_int_length: "scan_int inp = Some (lit, r) \<Longrightarrow> length r \<le> length inp"
proof -
  assume a: "scan_int inp = Some (lit, r)"
  then obtain c r0 where sk: "skip_ws inp = c # r0"
    by (auto simp add: scan_int_def split: list.splits)
  have "r = dropWhile is_digit (if code c = 0x2D then r0 else c # r0)"
    using a sk by (auto simp add: scan_int_def Let_def split: if_splits)
  then have "length r \<le> length (c # r0)"
    using length_dropWhile_le[of is_digit r0] length_dropWhile_le[of is_digit "c # r0"]
    by (auto split: if_splits)
  then show ?thesis using skip_ws_length[of inp] sk by simp
qed

lemma parse_int_length: "parse_int b inp = Some (v, r) \<Longrightarrow> length r \<le> length inp"
  by (auto simp add: parse_int_def split: option.splits dest: scan_int_length)

lemma read_member_length: "read_member k c inp = Some (c', r) \<Longrightarrow> length r \<le> length inp"
  by (auto simp add: read_member_def split: if_splits
           dest: parse_int_length dest!: parse_string_length)

text \<open>
  The members of an object after the opening brace: tag, colon, value, then a comma and
  the next member, or the closing brace.
\<close>

lemma members_step_length:
  assumes "parse_string inp = Some (k, r1)" "skip_ws r1 = col # r2"
          "read_member k c r2 = Some (c', r3)" "skip_ws r3 = d # r4"
  shows "length r4 < length inp"
proof -
  have "length r1 < length inp" using assms(1) by (rule parse_string_length)
  moreover have "length r2 < length r1" using skip_ws_length[of r1] assms(2) by simp
  moreover have "length r3 \<le> length r2" using assms(3) by (rule read_member_length)
  moreover have "length r4 < length r3" using skip_ws_length[of r3] assms(4) by simp
  ultimately show ?thesis by simp
qed

function parse_members :: "ConnectionInfo \<Rightarrow> string \<Rightarrow> (ConnectionInfo \<times> string) option" where
  "parse_members c inp =
     (case parse_string inp of
        None \<Rightarrow> None
      | Some (k, r1) \<Rightarrow>
          (case skip_ws r1 of
             [] \<Rightarrow> None
           | col # r2 \<Rightarrow>
               if code col \<noteq> 0x3A then None
               else (case read_member k c r2 of
                       None \<Rightarrow> None
                     | Some (c', r3) \<Rightarrow>
                         (case skip_ws r3 of
                            [] \<Rightarrow> None
                          | d # r4 \<Rightarrow>
                              if code d = 0x2C then parse_members c' r4
                              else if code d = 0x7D then Some (c', r4)
                              else None))))"
  by pat_completeness auto

termination
  by (relation "measure (\<lambda>(c, inp). length inp)") (auto dest: members_step_length)

declare parse_members.simps [simp del]

lemma parse_members_length: "parse_members c inp = Some (c', r) \<Longrightarrow> length r < length inp"
proof (induction c inp arbitrary: c' r rule: parse_members.induct)
  case (1 c inp)
  from "1.prems" obtain k r1 col r2 c1 r3 d r4 where
    st: "parse_string inp = Some (k, r1)" "skip_ws r1 = col # r2" "code col = 0x3A"
        "read_member k c r2 = Some (c1, r3)" "skip_ws r3 = d # r4"
    and fin: "(code d = 0x2C \<and> parse_members c1 r4 = Some (c', r))
              \<or> (code d \<noteq> 0x2C \<and> code d = 0x7D \<and> c' = c1 \<and> r = r4)"
    by (subst (asm) parse_members.simps)
       (auto split: option.splits list.splits if_splits)
  have l4: "length r4 < length inp" using members_step_length[OF st(1,2,4,5)] .
  from fin show ?case
  proof
    assume a: "code d = 0x2C \<and> parse_members c1 r4 = Some (c', r)"
    have "length r < length r4"
      using "1.IH"[OF st(1) refl st(2) _ st(4) refl st(5)] st(3) a by simp
    then show ?thesis using l4 by simp
  next
    assume "code d \<noteq> 0x2C \<and> code d = 0x7D \<and> c' = c1 \<and> r = r4"
    then show ?thesis using l4 by simp
  qed
qed

definition zero_conn :: ConnectionInfo where
  "zero_conn = \<lparr>PID = 0, ServiceName = [], Namespace = [], LocalPort = [], RemotePort = 0,
                PodName = [], Kubeconfig = [], Status = []\<rparr>"

definition parse_object :: "string \<Rightarrow> (ConnectionInfo \<times> string) option" where
  "parse_object inp =
     (case skip_ws inp of
        [] \<Rightarrow> None
      | c # r \<Rightarrow>
          if code c \<noteq> 0x7B then None
          else (case skip_ws r of
                  [] \<Rightarrow> None
                | d # r1 \<Rightarrow> if code d = 0x7D then Some (zero_conn, r1)
                            else parse_members zero_conn r))"

lemma parse_object_length: "parse_object inp = Some (c, r) \<Longrightarrow> length r < length inp"
proof -
  assume a: "parse_object inp = Some (c, r)"
  then obtain b r0 where sk: "skip_ws inp = b # r0"
    by (auto simp add: parse_object_def split: list.splits)
  have "length r \<le> length r0"
    using a sk skip_ws_length[of r0]
    by (auto simp add: parse_object_def split: list.splits if_splits dest!: parse_members_length)
  then show ?thesis using skip_ws_length[of inp] sk by simp
qed

text \<open>The objects of an array after the opening bracket.\<close>

lemma elements_step_length:
  assumes "parse_object inp = Some (c, r)" "skip_ws r = d # r1"
  shows "length r1 < length inp"
  using parse_object_length[OF assms(1)] skip_ws_length[of r] assms(2) by simp

function parse_elements :: "string \<Rightarrow> (ConnectionInfo list \<times> string) option" where
  "parse_elements inp =
     (case parse_object inp of
        None \<Rightarrow> None
      | Some (c, r) \<Rightarrow>
          (case skip_ws r of
             [] \<Rightarrow> None
           | d # r1 \<Rightarrow>
               if code d = 0x2C
               then map_option (\<lambda>(cs, r2). (c # cs, r2)) (parse_elements r1)
               else if code d = 0x5D then Some ([c], r1)
               else None))"
  by pat_completeness auto

termination
  by (relation "measure length") (auto dest: elements_step_length)

declare parse_elements.simps [simp del]

definition Unmarshal :: "string \<Rightarrow> ConnectionInfo list option" where
  "Unmarshal data =
     (let inp = skip_ws data in
      if take 4 inp = ''null'' then (if skip_ws (drop 4 inp) = [] then Some [] else None)
      else case inp of
             [] \<Rightarrow> None
           | c # r \<Rightarrow>
               if code c \<noteq> 0x5B then None
               else (case skip_ws r of
                       [] \<Rightarrow> None
                     | d # r1 \<Rightarrow>
                         if code d = 0x5D then (if skip_ws r1 = [] then Some [] else None)
                         else (case parse_elements r of
                                 None \<Rightarrow> None
                               | Some (cs, r2) \<Rightarrow>
                                   if skip_ws r2 = [] then Some cs else None)))"

text \<open>Writing the document.\<close>

definition json_member :: "string \<Rightarrow> string \<Rightarrow> string" where
  "json_member k v = ''    '' @ json_string k @ '': '' @ v"

definition members_text :: "ConnectionInfo \<Rightarrow> string" where
  "members_text c =
       json_member ''pid'' (Itoa (sint (PID c))) @ '','' @ [byte 0x0A]
     @ json_member ''service_name'' (json_string (ServiceName c)) @ '','' @ [byte 0x0A]
     @ json_member ''namespace'' (json_string (Namespace c)) @ '','' @ [byte 0x0A]
     @ json_member ''local_port'' (json_string (LocalPort c)) @ '','' @ [byte 0x0A]
     @ json_member ''remote_port'' (Itoa (sint (RemotePort c))) @ '','' @ [byte 0x0A]
     @ json_member ''pod_name'' (json_string (PodName c)) @ '','' @ [byte 0x0A]
     @ json_member ''kubeconfig'' (json_string (Kubeconfig c)) @ '','' @ [byte 0x0A]
     @ json_member ''status'' (json_string (Status c)) @ [byte 0x0A]
     @ ''  }''"

definition json_object :: "ConnectionInfo \<Rightarrow> string" where
  "json_object c =
     ''  {'' @ [byte 0x0A]
     @ json_member ''pid'' (Itoa (sint (PID c))) @ '','' @ [byte 0x0A]
     @ json_member ''service_name'' (json_string (ServiceName c)) @ '','' @ [byte 0x0A]
     @ json_member ''namespace'' (json_string (Namespace c)) @ '','' @ [byte 0x0A]
     @ json_member ''local_port'' (json_string (LocalPort c)) @ '','' @ [byte 0x0A]
     @ json_member ''remote_port'' (Itoa (sint (RemotePort c))) @ '','' @ [byte 0x0A]
     @ json_member ''pod_name'' (json_string (PodName c)) @ '','' @ [byte 0x0A]
     @ json_member ''kubeconfig'' (json_string (Kubeconfig c)) @ '','' @ [byte 0x0A]
     @ json_member ''status'' (json_string (Status c)) @ [byte 0x0A]
     @ ''  }''"

fun json_elements :: "ConnectionInfo list \<Rightarrow> string" where
  "json_elements [] = []"
| "json_elements [c] = json_object c"
| "json_elements (c # cs) = json_object c @ '','' @ [byte 0x0A] @ json_elements cs"

definition MarshalIndent :: "ConnectionInfo list \<Rightarrow> string" where
  "MarshalIndent cs =
     (if cs = [] then ''null''
      else ''['' @ [byte 0x0A] @ json_elements cs @ [byte 0x0A] @ '']'')"

section \<open>The registry file\<close>

text \<open>
  The file \<^verbatim>\<open>~/.bugx/connections.json\<close>: \<open>regfile = None\<close> is a missing file, otherwise
  \<open>regfile\<close> holds its bytes. The three flags say which system calls fail:
  \<^verbatim>\<open>os.MkdirAll\<close>, \<^verbatim>\<open>os.ReadFile\<close> on an existing file, and \<^verbatim>\<open>os.WriteFile\<close>; a failed
  write leaves the file as it was. \<^verbatim>\<open>json.MarshalIndent\<close> has no error for this record
  type.
\<close>

record fs =
  mkdir_fails :: bool
  read_fails :: bool
  write_fails :: bool
  dir_exists :: bool
  regfile :: "string option"

definition MkdirAll :: "fs \<Rightarrow> (error + unit) \<times> fs" where
  "MkdirAll s = (if mkdir_fails s then (Inl MkdirFailed, s)
                 else (Inr (), s\<lparr>dir_exists := True\<rparr>))"

definition loadConnections :: "fs \<Rightarrow> (error + ConnectionInfo list) \<times> fs" where
  "loadConnections s =
     (case MkdirAll s of
        (Inl e, s1) \<Rightarrow> (Inl e, s1)
      | (Inr u, s1) \<Rightarrow>
          (case regfile s1 of
             None \<Rightarrow> (Inr [], s1)
           | Some data \<Rightarrow>
               if read_fails s1 then (Inl ReadFailed, s1)
               else if length data > 0
               then (case Unmarshal data of
                       None \<Rightarrow> (Inl ParseFailed, s1)
                     | Some connections \<Rightarrow> (Inr connections, s1))
               else (Inr [], s1)))"

definition saveConnections :: "ConnectionInfo list \<Rightarrow> fs \<Rightarrow> (error + unit) \<times> fs" where
  "saveConnections connections s =
     (case MkdirAll s of
        (Inl e, s1) \<Rightarrow> (Inl e, s1)
      | (Inr u, s1) \<Rightarrow>
          (let data = MarshalIndent connections in
           if write_fails s1 then (Inl WriteFailed, s1)
           else (Inr (), s1\<lparr>regfile := Some data\<rparr>)))"

definition addConnection :: "ConnectionInfo \<Rightarrow> fs \<Rightarrow> (error + unit) \<times> fs" where
  "addConnection conn s =
     (case loadConnections s of
        (Inl e, s1) \<Rightarrow> (Inl e, s1)
      | (Inr connections, s1) \<Rightarrow> saveConnections (connections @ [conn]) s1)"

text \<open>The loop of \<^verbatim>\<open>removeConnection\<close>: keep a record unless both fields match.\<close>

fun remove_loop :: "string \<Rightarrow> string \<Rightarrow> ConnectionInfo list \<Rightarrow> ConnectionInfo list" where
  "remove_loop serviceName namespace [] = []"
| "remove_loop serviceName namespace (conn # rest) =
     (if ServiceName conn \<noteq> serviceName \<or> Namespace conn \<noteq> namespace
      then conn # remove_loop serviceName namespace rest
      else remove_loop serviceName namespace rest)"

definition removeConnection :: "string \<Rightarrow> string \<Rightarrow> fs \<Rightarrow> (error + unit) \<times> fs" where
  "removeConnection serviceName namespace s =
     (case loadConnections s of
        (Inl e, s1) \<Rightarrow> (Inl e, s1)
      | (Inr connections, s1) \<Rightarrow>
          saveConnections (remove_loop serviceName namespace connections) s1)"

text \<open>
  The loop of \<^verbatim>\<open>updateConnectionStatus\<close>: the first matching record gets the new status
  and the loop returns; \<open>None\<close> when no record matches.
\<close>

fun update_loop :: "string \<Rightarrow> string \<Rightarrow> string \<Rightarrow> ConnectionInfo list
                     \<Rightarrow> ConnectionInfo list option" where
  "update_loop serviceName namespace status [] = None"
| "update_loop serviceName namespace status (conn # rest) =
     (if ServiceName conn = serviceName \<and> Namespace conn = namespace
      then Some (conn\<lparr>Status := status\<rparr> # rest)
      else map_option (\<lambda>r. conn # r) (update_loop serviceName namespace status rest))"


fun find_loop :: "string \<Rightarrow> string \<Rightarrow> ConnectionInfo list \<Rightarrow> ConnectionInfo option" where
  "find_loop serviceName namespace [] = None"
| "find_loop serviceName namespace (conn # rest) =
     (if ServiceName conn = serviceName \<and> Namespace conn = namespace
      then Some conn
      else find_loop serviceName namespace rest)"

definition findConnection ::
  "string \<Rightarrow> string \<Rightarrow> fs \<Rightarrow> (error + ConnectionInfo) \<times> fs" where
  "findConnection serviceName namespace s =
     (case loadConnections s of
        (Inl e, s1) \<Rightarrow> (Inl e, s1)
      | (Inr connections, s1) \<Rightarrow>
          (case find_loop serviceName namespace connections of
             Some conn \<Rightarrow> (Inr conn, s1)
           | None \<Rightarrow> (Inl ConnectionNotFound, s1)))"

section \<open>The daemon entry point (daemon portforward)\<close>

text \<open>
  The flags as the command line gives them: \<open>None\<close> is a flag that is absent. cobra fills an
  absent flag with the default registered by \<^verbatim>\<open>cmd.Flags().StringVar\<close>: the empty string
  for all flags but \<^verbatim>\<open>--namespace\<close>, whose default is \<^verbatim>\<open>default\<close>.
\<close>

record daemon_args =
  arg_kubeconfig :: "string option"
  arg_namespace :: "string option"
  arg_service :: "string option"
  arg_pod :: "string option"
  arg_localport :: "string option"
  arg_remoteport :: "string option"

definition flag_value :: "string \<Rightarrow> string option \<Rightarrow> string" where
  "flag_value dflt a = (case a of None \<Rightarrow> dflt | Some v \<Rightarrow> v)"

text \<open>
  What \<^verbatim>\<open>RunE\<close> of the daemon command does: either it returns an error before the tunnel
  logic, or it calls \<^verbatim>\<open>runPortForwardDaemon\<close> with the arguments recorded in \<open>RunDaemon\<close>
  (namespace, pod, local port, remote port, service). \<open>build_config\<close> says whether
  \<^verbatim>\<open>clientcmd.BuildConfigFromFlags\<close> accepts the kubeconfig path.
\<close>

datatype daemon_start =
    DaemonArgError error
  | RunDaemon string string string "32 word" string

definition NewDaemonPortForwardCmd ::
  "(string \<Rightarrow> bool) \<Rightarrow> daemon_args \<Rightarrow> daemon_start" where
  "NewDaemonPortForwardCmd build_config a =
     (let kubeconfig = flag_value '''' (arg_kubeconfig a);
          namespace = flag_value ''default'' (arg_namespace a);
          service = flag_value '''' (arg_service a);
          pod = flag_value '''' (arg_pod a);
          localPort = flag_value '''' (arg_localport a);
          remotePort = flag_value '''' (arg_remoteport a)
      in if kubeconfig = '''' \<or> service = '''' \<or> pod = '''' \<or> localPort = ''''
            \<or> remotePort = ''''
         then DaemonArgError MissingRequiredFlags
         else if \<not> build_config kubeconfig then DaemonArgError BuildConfigFailed
         else (case ParseInt remotePort 32 of
                 None \<Rightarrow> DaemonArgError InvalidRemotePort
               | Some remotePortInt \<Rightarrow>
                   RunDaemon namespace pod localPort (word_of_int remotePortInt) service))"

section \<open>Processes and signals\<close>

text \<open>
  The process table as the operating system has it at one moment: a PID names no process,
  a process the caller may signal, or a process the caller may not signal. The commands
  record the processes they start and the signal calls they make as events.
\<close>

datatype proc_state = NoProc | Running | Denied

datatype signal = SIGTERM | SIGKILL

datatype event = Spawn "64 word" | SignalCall "64 word" signal | CloseStop

text \<open>
  \<^verbatim>\<open>os.FindProcess\<close> on Unix returns a handle for every PID and never an error (the
  program sets \<^verbatim>\<open>Setsid\<close> in \<^verbatim>\<open>SysProcAttr\<close>, so it builds for Unix only).
  \<^verbatim>\<open>process.Signal(syscall.Signal(0))\<close> delivers nothing and returns nil exactly when the
  process exists and may be signalled.
\<close>

definition FindProcess :: "64 word \<Rightarrow> error + 64 word" where
  "FindProcess pid = Inr pid"

definition Signal0_fails :: "(64 word \<Rightarrow> proc_state) \<Rightarrow> 64 word \<Rightarrow> bool" where
  "Signal0_fails procs pid = (procs pid \<noteq> Running)"

definition isProcessRunning :: "(64 word \<Rightarrow> proc_state) \<Rightarrow> 64 word \<Rightarrow> bool" where
  "isProcessRunning procs pid =
     (case FindProcess pid of
        Inl e \<Rightarrow> False
      | Inr process \<Rightarrow> \<not> Signal0_fails procs process)"

section \<open>connect (cmd/connect.go, cmd/kubeconfig.go)\<close>

text \<open>
  What \<^verbatim>\<open>connect\<close> reads from outside the program, fixed for one invocation: the files
  \<^verbatim>\<open>os.Stat\<close> finds, \<^verbatim>\<open>KUBECONFIG\<close>, the default kubeconfig path, the answers of the
  cluster (service and pods), whether \<^verbatim>\<open>os.Executable\<close> and \<^verbatim>\<open>cmd.Start\<close> succeed and
  the PID of the child, the process table when the child is probed after the wait, and
  the error message, if any, of the foreground port-forward.
\<close>

record service =
  svc_ports :: "32 word list"
  svc_selector :: "(string \<times> string) list"

record connect_env =
  stat_ok :: "string \<Rightarrow> bool"
  env_KUBECONFIG :: string
  default_kubeconfig :: string
  build_config_ok :: "string \<Rightarrow> bool"
  clientset_ok :: bool
  get_service :: "string \<Rightarrow> string \<Rightarrow> service option"
  list_pods :: "string \<Rightarrow> (string \<times> string) list \<Rightarrow> string list option"
  executable_ok :: bool
  start_child :: "64 word option"
  procs_after_wait :: "64 word \<Rightarrow> proc_state"
  foreground_result :: "string option"

record connect_flags =
  flag_kubeconfig :: string
  flag_namespace :: string
  flag_localport :: string
  flag_remoteport :: string
  flag_background :: bool

definition getKubeconfigPath :: "connect_env \<Rightarrow> string \<Rightarrow> string" where
  "getKubeconfigPath env flagPath =
     (if flagPath \<noteq> '''' \<and> stat_ok env flagPath then flagPath
      else if env_KUBECONFIG env \<noteq> '''' \<and> stat_ok env (env_KUBECONFIG env)
           then env_KUBECONFIG env
      else if stat_ok env (default_kubeconfig env) then default_kubeconfig env
      else '''')"

text \<open>
  \<^verbatim>\<open>createBackgroundPortForward\<close>: start the detached child, wait, probe it, and only then
  write the registry record; when the write fails, kill the child.
\<close>

definition createBackgroundPortForward ::
  "connect_env \<Rightarrow> string \<Rightarrow> string \<Rightarrow> string \<Rightarrow> string \<Rightarrow> 32 word \<Rightarrow> string \<Rightarrow> fs
     \<Rightarrow> error option \<times> fs \<times> event list" where
  "createBackgroundPortForward env namespace serviceName podName localPort remotePort
       kubeconfigPath s =
     (if \<not> executable_ok env then (Some ExecutableFailed, s, [])
      else case start_child env of
             None \<Rightarrow> (Some StartDaemonFailed, s, [])
           | Some pid \<Rightarrow>
               if \<not> isProcessRunning (procs_after_wait env) pid
               then (Some (DaemonExitedImmediately pid), s, [Spawn pid])
               else
                 (let conn = \<lparr>PID = pid, ServiceName = serviceName, Namespace = namespace,
                              LocalPort = localPort, RemotePort = remotePort,
                              PodName = podName, Kubeconfig = kubeconfigPath,
                              Status = ''active''\<rparr>
                  in case addConnection conn s of
                       (Inl e, s1) \<Rightarrow>
                         (case FindProcess pid of
                            Inr proc \<Rightarrow>
                              (Some (SaveConnectionInfoFailed e), s1,
                               [Spawn pid, SignalCall proc SIGKILL])
                          | Inl e' \<Rightarrow> (Some (SaveConnectionInfoFailed e), s1, [Spawn pid]))
                     | (Inr u, s1) \<Rightarrow> (None, s1, [Spawn pid])))"

text \<open>
  The steps of \<^verbatim>\<open>RunE\<close> of \<^verbatim>\<open>NewConnectCmd\<close> before the registry is consulted: the
  kubeconfig, the cluster client, the service, the remote port, a pod behind the service
  and the local port. The selector string is empty exactly when the service's selector
  map is. The result is (namespace, pod, local port, remote port, kubeconfig path).
\<close>

definition connect_target ::
  "connect_env \<Rightarrow> connect_flags \<Rightarrow> string
     \<Rightarrow> error + (string \<times> string \<times> string \<times> 32 word \<times> string)" where
  "connect_target env fl servicename =
     (let kubeconfigPath = getKubeconfigPath env (flag_kubeconfig fl) in
      if kubeconfigPath = '''' then Inl KubeconfigNotFound
      else if \<not> build_config_ok env kubeconfigPath then Inl BuildConfigFailed
      else if \<not> clientset_ok env then Inl ClientsetFailed
      else
       (let namespace = (if flag_namespace fl = '''' then ''default''
                         else flag_namespace fl) in
        case get_service env namespace servicename of
          None \<Rightarrow> Inl GetServiceFailed
        | Some svc \<Rightarrow>
           (case (if flag_remoteport fl \<noteq> ''''
                  then map_option word_of_int (ParseInt (flag_remoteport fl) 32)
                  else if length (svc_ports svc) > 0 then Some (hd (svc_ports svc))
                  else Some 3306) of
              None \<Rightarrow> Inl InvalidRemotePort
            | Some remotePortInt \<Rightarrow>
               if svc_selector svc = [] then Inl NoSelector
               else (case list_pods env namespace (svc_selector svc) of
                       None \<Rightarrow> Inl ListPodsFailed
                     | Some [] \<Rightarrow> Inl NoPodsFound
                     | Some (podName # _) \<Rightarrow>
                        (let localPortInt =
                               (if flag_localport fl \<noteq> '''' then flag_localport fl
                                else Itoa (sint remotePortInt + 1))
                         in Inr (namespace, podName, localPortInt, remotePortInt,
                                 kubeconfigPath))))))"

text \<open>
  \<^verbatim>\<open>RunE\<close> of \<^verbatim>\<open>NewConnectCmd\<close>. \<^verbatim>\<open>existing, _ := findConnection(...)\<close> drops the
  error, so a registry that cannot be read counts as no existing connection.
\<close>

definition NewConnectCmd ::
  "connect_env \<Rightarrow> connect_flags \<Rightarrow> string list \<Rightarrow> fs \<Rightarrow> error option \<times> fs \<times> event list" where
  "NewConnectCmd env fl args s =
     (case args of
        [] \<Rightarrow> (None, s, [])
      | servicename # _ \<Rightarrow>
         (case connect_target env fl servicename of
            Inl e \<Rightarrow> (Some e, s, [])
          | Inr (namespace, podName, localPortInt, remotePortInt, kubeconfigPath) \<Rightarrow>
             (let (existing, s1) = findConnection servicename namespace s;
                  already = (case existing of
                               Inr conn \<Rightarrow> Status conn = ''active''
                             | Inl e \<Rightarrow> False)
              in if already
                 then (Some (AlreadyExists (LocalPort (projr existing))), s1, [])
                 else if flag_background fl
                 then createBackgroundPortForward env namespace servicename podName
                        localPortInt remotePortInt kubeconfigPath s1
                 else (map_option ForegroundFailed (foreground_result env), s1, []))))"

section \<open>disconnect (cmd/disconnect.go)\<close>

text \<open>
  What \<^verbatim>\<open>disconnect\<close> meets outside the program: the process table when the recorded PID
  is probed, and whether the two signal calls return an error (the worker can exit between
  the probe and the signal).
\<close>

record disconnect_env =
  procs_at_probe :: "64 word \<Rightarrow> proc_state"
  sigterm_fails :: bool
  sigkill_fails :: bool

datatype outcome = AlreadyStopped | Disconnected

definition NewDisconnectCmd ::
  "disconnect_env \<Rightarrow> string \<Rightarrow> string \<Rightarrow> fs
     \<Rightarrow> (error + outcome) \<times> fs \<times> event list" where
  "NewDisconnectCmd env flag_ns servicename s =
     (let namespace = (if flag_ns = '''' then ''default'' else flag_ns) in
      case findConnection servicename namespace s of
        (Inl e, s1) \<Rightarrow> (Inl DisconnectNotFound, s1, [])
      | (Inr conn, s1) \<Rightarrow>
          if \<not> isProcessRunning (procs_at_probe env) (PID conn)
          then (Inr AlreadyStopped, snd (removeConnection servicename namespace s1), [])
          else case FindProcess (PID conn) of
                 Inl e \<Rightarrow> (Inl (FindProcessFailed (PID conn)), s1, [])
               | Inr process \<Rightarrow>
                   if sigterm_fails env \<and> sigkill_fails env
                   then (Inl (KillProcessFailed (PID conn)), s1,
                         [SignalCall process SIGTERM, SignalCall process SIGKILL])
                   else
                     (let sent = (if sigterm_fails env
                                  then [SignalCall process SIGTERM, SignalCall process SIGKILL]
                                  else [SignalCall process SIGTERM])
                      in case removeConnection servicename namespace s1 of
                           (Inl e, s2) \<Rightarrow> (Inl (RemoveConnectionFailed e), s2, sent)
                         | (Inr u, s2) \<Rightarrow> (Inr Disconnected, s2, sent)))"

section \<open>The daemon runtime (runPortForwardDaemon)\<close>




section \<open>Reading the model\<close>

text \<open>
  The records the registry file holds (none when the file is missing, empty or does not
  parse), whether the file is one \<^verbatim>\<open>json.Unmarshal\<close> rejects, the key of a record, and
  the condition that every system call on the registry succeeds and the file parses.
\<close>

definition records :: "fs \<Rightarrow> ConnectionInfo list" where
  "records s =
     (case regfile s of
        None \<Rightarrow> []
      | Some data \<Rightarrow>
          if length data > 0 then (case Unmarshal data of None \<Rightarrow> [] | Some cs \<Rightarrow> cs)
          else [])"

definition malformed :: "fs \<Rightarrow> bool" where
  "malformed s =
     (case regfile s of
        None \<Rightarrow> False
      | Some data \<Rightarrow> length data > 0 \<and> Unmarshal data = None)"

definition matches :: "string \<Rightarrow> string \<Rightarrow> ConnectionInfo \<Rightarrow> bool" where
  "matches serviceName namespace c = (ServiceName c = serviceName \<and> Namespace c = namespace)"


definition ns_of :: "string \<Rightarrow> string" where
  "ns_of flag_ns = (if flag_ns = '''' then ''default'' else flag_ns)"

section \<open>Predicates and command sequences used in the statements\<close>

text \<open>
  \<open>first_active\<close>: the registry can be read and the first record for the key, the one
  \<^verbatim>\<open>findConnection\<close> returns, has status \<^verbatim>\<open>active\<close>.
\<close>

definition first_active :: "string \<Rightarrow> string \<Rightarrow> fs \<Rightarrow> bool" where
  "first_active n ns s =
     (\<exists>cs c. fst (loadConnections s) = Inr cs \<and> find_loop n ns cs = Some c
            \<and> Status c = ''active'')"

text \<open>
  A sequence of commands run one after the other on the registry. Each command comes with
  the faults of the file system while it runs (\<^verbatim>\<open>MkdirAll\<close>, \<^verbatim>\<open>ReadFile\<close>,
  \<^verbatim>\<open>WriteFile\<close> failing); the faults may differ from one command to the next.
\<close>

type_synonym faults = "bool \<times> bool \<times> bool"

definition with_faults :: "faults \<Rightarrow> fs \<Rightarrow> fs" where
  "with_faults f s = (case f of (m, r, w) \<Rightarrow>
      s\<lparr>mkdir_fails := m, read_fails := r, write_fails := w\<rparr>)"




definition key :: "ConnectionInfo \<Rightarrow> string \<times> string" where
  "key c = (ServiceName c, Namespace c)"



definition all_active_distinct :: "fs \<Rightarrow> bool" where
  "all_active_distinct s =
     (\<not> malformed s \<and> (\<forall>c \<in> set (records s). Status c = ''active'')
      \<and> distinct (map key (records s)))"

section \<open>Concrete inputs\<close>

definition procs_all :: "proc_state \<Rightarrow> 64 word \<Rightarrow> proc_state" where
  "procs_all st pid = st"

definition accept_kubeconfig :: "string \<Rightarrow> bool" where
  "accept_kubeconfig path = True"

definition ex_conn :: "64 word \<Rightarrow> string \<Rightarrow> string \<Rightarrow> string \<Rightarrow> ConnectionInfo" where
  "ex_conn pid n ns st =
     \<lparr>PID = pid, ServiceName = n, Namespace = ns, LocalPort = ''3307'', RemotePort = 3306,
      PodName = ''db-0'', Kubeconfig = ''/k'', Status = st\<rparr>"

definition ex_fs :: "bool \<Rightarrow> ConnectionInfo list \<Rightarrow> fs" where
  "ex_fs w cs = \<lparr>mkdir_fails = False, read_fails = False, write_fails = w, dir_exists = True,
               regfile = Some (MarshalIndent cs)\<rparr>"

definition ex_env :: "64 word option \<Rightarrow> (64 word \<Rightarrow> proc_state) \<Rightarrow> connect_env" where
  "ex_env child procs =
     \<lparr>stat_ok = (\<lambda>p. p = ''/k''), env_KUBECONFIG = '''', default_kubeconfig = ''/root/.kube/config'',
      build_config_ok = (\<lambda>p. True), clientset_ok = True,
      get_service = (\<lambda>ns n. Some \<lparr>svc_ports = [3306], svc_selector = [(''app'', ''db'')]\<rparr>),
      list_pods = (\<lambda>ns sel. Some [''db-0'']),
      executable_ok = True, start_child = child, procs_after_wait = procs,
      foreground_result = None\<rparr>"

definition ex_flags :: connect_flags where
  "ex_flags = \<lparr>flag_kubeconfig = ''/k'', flag_namespace = ''prod'', flag_localport = '''',
               flag_remoteport = '''', flag_background = True\<rparr>"

section \<open>Facts about the JSON document\<close>

lemma code_byte: "n < 256 \<Longrightarrow> code (byte n) = n"
  by (simp add: code_def byte_def)

lemma byte_code [simp]: "byte (code c) = c"
  by (simp add: code_def byte_def)

lemma code_lt [simp]: "code c < 256"
  by (simp add: code_def)

lemma hex_val_digit: "k < 16 \<Longrightarrow> hex_val (hex_digit k) = Some k"
  by (auto simp add: hex_val_def hex_digit_def code_byte Let_def)

lemma code_inj: "code a = code b \<longleftrightarrow> a = b"
  by (simp add: code_def)

lemma hex_val_0 [simp]: "hex_val (byte 0x30) = Some 0"
  by (simp add: hex_val_def code_byte)

lemma read_char_escape:
  "\<exists>e es. json_escape c = e # es \<and> code e \<noteq> 0x22 \<and> read_char e (es @ rest) = Some (c, rest)"
proof -
  let ?n = "code c"
  have lt: "?n < 256" by simp
  have d: "?n div 16 < 16" "?n mod 16 < 16" using lt by arith+
  have bk: "byte (16 * (?n div 16) + ?n mod 16) = c" by simp
  have eqs: "\<And>k. k < 256 \<Longrightarrow> (c = byte k) = (?n = k)"
    by (metis byte_code code_byte)
  consider (q) "?n = 0x22" | (bs) "?n = 0x5C" | (b) "?n = 0x08" | (f) "?n = 0x0C"
    | (n) "?n = 0x0A" | (r) "?n = 0x0D" | (t) "?n = 0x09"
    | (u) "?n \<notin> {0x22, 0x5C, 0x08, 0x0C, 0x0A, 0x0D, 0x09}"
          "?n < 0x20 \<or> ?n = 0x3C \<or> ?n = 0x3E \<or> ?n = 0x26"
    | (a) "?n \<notin> {0x22, 0x5C}" "0x20 \<le> ?n" "?n < 0x80" "?n \<noteq> 0x3C" "?n \<noteq> 0x3E" "?n \<noteq> 0x26"
    | (h) "0x80 \<le> ?n"
    by fastforce
  then show ?thesis
  proof cases
    case q
    then have "c = byte 0x22" using eqs[of "0x22"] by simp
    then show ?thesis using q
      by (simp add: json_escape_def read_char_def read_escape_def simple_escape_def code_byte Let_def)
  next
    case bs
    then have "c = byte 0x5C" using eqs[of "0x5C"] by simp
    then show ?thesis using bs
      by (simp add: json_escape_def read_char_def read_escape_def simple_escape_def code_byte Let_def)
  next
    case b
    then have "c = byte 0x08" using eqs[of "0x08"] by simp
    then show ?thesis using b
      by (simp add: json_escape_def read_char_def read_escape_def simple_escape_def code_byte Let_def)
  next
    case f
    then have "c = byte 0x0C" using eqs[of "0x0C"] by simp
    then show ?thesis using f
      by (simp add: json_escape_def read_char_def read_escape_def simple_escape_def code_byte Let_def)
  next
    case n
    then have "c = byte 0x0A" using eqs[of "0x0A"] by simp
    then show ?thesis using n
      by (simp add: json_escape_def read_char_def read_escape_def simple_escape_def code_byte Let_def)
  next
    case r
    then have "c = byte 0x0D" using eqs[of "0x0D"] by simp
    then show ?thesis using r
      by (simp add: json_escape_def read_char_def read_escape_def simple_escape_def code_byte Let_def)
  next
    case t
    then have "c = byte 0x09" using eqs[of "0x09"] by simp
    then show ?thesis using t
      by (simp add: json_escape_def read_char_def read_escape_def simple_escape_def code_byte Let_def)
  next
    case u
    then have e: "json_escape c = [byte 0x5C, byte 0x75, byte 0x30, byte 0x30,
                     hex_digit (?n div 16), hex_digit (?n mod 16)]"
      by (auto simp add: json_escape_def Let_def)
    show ?thesis
      unfolding e using d bk
      by (simp add: read_char_def read_escape_def read_hex4_def code_byte Let_def hex_val_digit)
  next
    case a
    then have e: "json_escape c = [c]" by (auto simp add: json_escape_def Let_def)
    show ?thesis unfolding e using a by (simp add: read_char_def Let_def)
  next
    case h
    then have e: "json_escape c = [byte (0xC0 + ?n div 64), byte (0x80 + ?n mod 64)]"
      by (auto simp add: json_escape_def Let_def)
    have r: "?n div 64 = 2 \<or> ?n div 64 = 3" using h lt by arith
    have c1: "code (byte (0xC0 + ?n div 64)) = 0xC0 + ?n div 64" using r by (auto simp add: code_byte)
    have c2: "code (byte (0x80 + ?n mod 64)) = 0x80 + ?n mod 64" by (simp add: code_byte)
    have bk2: "byte ((0xC0 + ?n div 64 - 0xC0) * 64 + (0x80 + ?n mod 64 - 0x80)) = c"
      by simp
    show ?thesis
      unfolding e using r bk2
      by (auto simp add: read_char_def read_utf8_def c1 c2 Let_def simp del: byte_code)
  qed
qed

lemma unquote_escape:
  "unquote (json_escape c @ rest) = map_option (\<lambda>(s, r). (c # s, r)) (unquote rest)"
proof -
  from read_char_escape[of c rest] obtain e es where
    "json_escape c = e # es" "code e \<noteq> 0x22" "read_char e (es @ rest) = Some (c, rest)"
    by blast
  then show ?thesis by simp
qed

lemma unquote_concat:
  "unquote (concat (map json_escape s) @ byte 0x22 # rest) = Some (s, rest)"
  by (induction s) (simp_all add: unquote_escape code_byte)

lemma code_lit [simp]:
  "code CHR '' '' = 32" "code CHR ''{'' = 123" "code CHR ''}'' = 125" "code CHR ''['' = 91"
  "code CHR '']'' = 93" "code CHR '','' = 44" "code CHR '':'' = 58"
  by (simp_all add: code_def)

lemma code_byte_num [simp]: "code (byte (numeral k)) = numeral k mod 256"
  by (simp add: code_def byte_def)

lemma skip_ws_Cons: "skip_ws (c # x) = (if is_ws c then skip_ws x else c # x)"
  by (simp add: skip_ws_def)

lemma skip_ws_Nil [simp]: "skip_ws [] = []"
  by (simp add: skip_ws_def)

lemma is_digit_byte: "d < 10 \<Longrightarrow> is_digit (byte (48 + d))"
  by (simp add: is_digit_def code_byte)

lemma digit_val_byte: "d < 10 \<Longrightarrow> digit_val (byte (48 + d)) = int d"
  by (simp add: digit_val_def code_byte)

lemma digits_of_digits: "\<forall>c \<in> set (digits_of n). is_digit c"
proof (induction n rule: digits_of.induct)
  case (1 n)
  show ?case
  proof (cases "n < 10")
    case True
    then show ?thesis by (subst digits_of.simps) (simp add: is_digit_byte)
  next
    case False
    have "n mod 10 < 10" by simp
    then have "is_digit (byte (48 + n mod 10))" by (rule is_digit_byte)
    then show ?thesis using "1.IH"[OF False] False by (subst digits_of.simps) simp
  qed
qed

lemma digits_of_nonempty: "digits_of n \<noteq> []"
  by (subst digits_of.simps) simp

lemma parse_digits_append:
  "parse_digits acc (xs @ ys) =
     (case parse_digits acc xs of None \<Rightarrow> None | Some a \<Rightarrow> parse_digits a ys)"
  by (induction xs arbitrary: acc) auto

lemma parse_digits_of: "parse_digits 0 (digits_of n) = Some (int n)"
proof (induction n rule: digits_of.induct)
  case (1 n)
  show ?case
  proof (cases "n < 10")
    case True
    then show ?thesis by (subst digits_of.simps) (simp add: is_digit_byte digit_val_byte)
  next
    case False
    have m: "n mod 10 < 10" by simp
    have "parse_digits 0 (digits_of (n div 10) @ [byte (48 + n mod 10)])
            = Some (int (n div 10) * 10 + int (n mod 10))"
      using "1.IH"[OF False] is_digit_byte[OF m] digit_val_byte[OF m]
      by (simp add: parse_digits_append)
    moreover have "int (n div 10) * 10 + int (n mod 10) = int n"
      by (simp add: zdiv_int zmod_int)
    ultimately show ?thesis using False by (subst digits_of.simps) simp
  qed
qed

lemma digits_of_hd: "0 < n \<Longrightarrow> code (hd (digits_of n)) \<noteq> 48"
proof (induction n rule: digits_of.induct)
  case (1 n)
  show ?case
  proof (cases "n < 10")
    case True
    then show ?thesis using "1.prems" by (subst digits_of.simps) (simp add: code_byte)
  next
    case False
    then have "0 < n div 10" by simp
    then have "code (hd (digits_of (n div 10))) \<noteq> 48" using "1.IH"[OF False] by simp
    then show ?thesis using False digits_of_nonempty[of "n div 10"]
      by (subst digits_of.simps) simp
  qed
qed

lemma digits_of_zero: "digits_of 0 = [byte 48]"
  by (subst digits_of.simps) simp

lemma digits_of_leading: "\<not> (length (digits_of n) > 1 \<and> code (hd (digits_of n)) = 48)"
proof (cases "n = 0")
  case True
  then show ?thesis by (simp add: digits_of_zero)
next
  case False
  then show ?thesis using digits_of_hd[of n] by simp
qed

lemma takeWhile_digits:
  "\<not> is_digit d \<Longrightarrow> takeWhile is_digit (digits_of n @ d # rest) = digits_of n"
  using digits_of_digits[of n] by (simp add: takeWhile_append2)

lemma dropWhile_digits:
  "\<not> is_digit d \<Longrightarrow> dropWhile is_digit (digits_of n @ d # rest) = d # rest"
  using digits_of_digits[of n] by (simp add: dropWhile_append2)

lemma digits_not_ws: "is_digit c \<Longrightarrow> \<not> is_ws c"
  by (auto simp add: is_digit_def is_ws_def)

lemma digits_not_minus: "is_digit c \<Longrightarrow> code c \<noteq> 0x2D \<and> code c \<noteq> 0x2B"
  by (auto simp add: is_digit_def)

lemma digits_of_Cons: "\<exists>c cs. digits_of n = c # cs \<and> is_digit c"
  using digits_of_nonempty[of n] digits_of_digits[of n] by (cases "digits_of n") auto

lemma scan_int_Itoa:
  assumes "\<not> is_digit d" "code d \<noteq> 0x2E" "code d \<noteq> 0x65" "code d \<noteq> 0x45"
  shows "scan_int (Itoa i @ d # rest) = Some (Itoa i, d # rest)"
proof (cases "i < 0")
  case True
  let ?n = "nat (- i)"
  have it: "Itoa i = byte 0x2D # digits_of ?n" using True by (simp add: Itoa_def)
  have nws: "\<not> is_ws (byte 0x2D)" by (simp add: is_ws_def)
  show ?thesis
    unfolding it scan_int_def
    using assms takeWhile_digits[OF assms(1), of ?n rest] dropWhile_digits[OF assms(1), of ?n rest]
          digits_of_nonempty[of ?n] digits_of_leading[of ?n] nws
    by (simp add: skip_ws_Cons Let_def)
next
  case False
  let ?n = "nat i"
  have it: "Itoa i = digits_of ?n" using False by (simp add: Itoa_def)
  obtain c cs where dc: "digits_of ?n = c # cs" "is_digit c" using digits_of_Cons by blast
  have sk: "skip_ws (digits_of ?n @ d # rest) = c # (cs @ d # rest)"
    using dc digits_not_ws by (simp add: skip_ws_Cons)
  have tk: "takeWhile is_digit (c # cs @ d # rest) = c # cs"
    using takeWhile_digits[OF assms(1), of ?n rest] dc by simp
  have dr: "dropWhile is_digit (c # cs @ d # rest) = d # rest"
    using dropWhile_digits[OF assms(1), of ?n rest] dc by simp
  show ?thesis
    unfolding it scan_int_def sk
    using assms tk dr digits_of_leading[of ?n] dc digits_not_minus[OF dc(2)]
    by (simp add: Let_def)
qed

lemma ParseInt_Itoa:
  assumes "0 < b" "- (2 ^ (b - 1)) \<le> i" "i < 2 ^ (b - 1)"
  shows "ParseInt (Itoa i) b = Some i"
proof (cases "i < 0")
  case True
  let ?n = "nat (- i)"
  have it: "Itoa i = byte 0x2D # digits_of ?n" using True by (simp add: Itoa_def)
  have "int ?n \<le> 2 ^ (b - 1)" using assms True by simp
  then show ?thesis
    unfolding it ParseInt_def ParseUint_def
    using True digits_of_nonempty[of ?n]
    by (simp add: Let_def parse_digits_of)
next
  case False
  let ?n = "nat i"
  have it: "Itoa i = digits_of ?n" using False by (simp add: Itoa_def)
  obtain c cs where dc: "digits_of ?n = c # cs" "is_digit c" using digits_of_Cons by blast
  have pd: "parse_digits 0 (c # cs) = Some i" using parse_digits_of[of ?n] dc False by simp
  show ?thesis
    unfolding it ParseInt_def ParseUint_def dc
    using False assms digits_not_minus[OF dc(2)] pd
    by (simp add: Let_def del: parse_digits.simps)
qed

lemma parse_int_64:
  assumes "\<not> is_digit d" "code d \<noteq> 0x2E" "code d \<noteq> 0x65" "code d \<noteq> 0x45"
  shows "parse_int 64 (Itoa (sint (w :: 64 word)) @ d # rest) = Some (sint w, d # rest)"
proof -
  have "- (2 ^ 63) \<le> sint w" "sint w < 2 ^ 63"
    using sint_ge[of w] sint_lt[of w] by simp_all
  then have "ParseInt (Itoa (sint w)) 64 = Some (sint w)"
    using ParseInt_Itoa[of 64 "sint w"] by simp
  then show ?thesis using scan_int_Itoa[OF assms] by (simp add: parse_int_def)
qed

lemma parse_int_32:
  assumes "\<not> is_digit d" "code d \<noteq> 0x2E" "code d \<noteq> 0x65" "code d \<noteq> 0x45"
  shows "parse_int 32 (Itoa (sint (w :: 32 word)) @ d # rest) = Some (sint w, d # rest)"
proof -
  have "- (2 ^ 31) \<le> sint w" "sint w < 2 ^ 31"
    using sint_ge[of w] sint_lt[of w] by simp_all
  then have "ParseInt (Itoa (sint w)) 32 = Some (sint w)"
    using ParseInt_Itoa[of 32 "sint w"] by simp
  then show ?thesis using scan_int_Itoa[OF assms] by (simp add: parse_int_def)
qed

lemma scan_int_ws: "is_ws c \<Longrightarrow> scan_int (c # x) = scan_int x"
  by (simp add: scan_int_def skip_ws_Cons)

lemma parse_int_ws: "is_ws c \<Longrightarrow> parse_int b (c # x) = parse_int b x"
  by (simp add: parse_int_def scan_int_ws)

lemma parse_string_ws: "is_ws c \<Longrightarrow> parse_string (c # x) = parse_string x"
  by (simp add: parse_string_def skip_ws_Cons)

lemma parse_string_json: "parse_string (json_string s @ rest) = Some (s, rest)"
  by (simp add: parse_string_def json_string_def skip_ws_Cons is_ws_def unquote_concat)

lemma ws_lits [simp]: "is_ws CHR '' ''" "is_ws (byte 0x0A)"
  "\<not> is_ws CHR '',''" "\<not> is_ws CHR '':''" "\<not> is_ws CHR ''{''" "\<not> is_ws CHR ''}''"
  "\<not> is_ws CHR ''[''" "\<not> is_ws CHR '']''" "\<not> is_ws (byte 0x22)"
  by (simp_all add: is_ws_def)

lemma sep_lits [simp]:
  "\<not> is_digit CHR '',''" "\<not> is_digit (byte 0x0A)"
  by (simp_all add: is_digit_def)

lemma members_comma:
  assumes "read_member k c (CHR '' '' # v @ CHR '','' # rest) = Some (c', CHR '','' # rest)"
  shows "parse_members c (json_member k v @ CHR '','' # rest) = parse_members c' rest"
  using assms
  by (subst parse_members.simps)
     (simp add: json_member_def parse_string_ws parse_string_json skip_ws_Cons)

lemma members_last:
  assumes "read_member k c (CHR '' '' # v @ byte 0x0A # CHR '' '' # CHR '' '' # CHR ''}'' # rest)
             = Some (c', byte 0x0A # CHR '' '' # CHR '' '' # CHR ''}'' # rest)"
  shows "parse_members c (json_member k v @ byte 0x0A # CHR '' '' # CHR '' '' # CHR ''}'' # rest)
           = Some (c', rest)"
  using assms
  by (subst parse_members.simps)
     (simp add: json_member_def parse_string_ws parse_string_json skip_ws_Cons)

lemma members_ws: "is_ws x \<Longrightarrow> parse_members c (x # inp) = parse_members c inp"
  by (subst parse_members.simps, subst (2) parse_members.simps) (simp add: parse_string_ws)

lemma read_pid:
  assumes "\<not> is_digit d" "code d \<noteq> 0x2E" "code d \<noteq> 0x65" "code d \<noteq> 0x45"
  shows "read_member ''pid'' c (CHR '' '' # Itoa (sint w) @ d # rest)
           = Some (c\<lparr>PID := w\<rparr>, d # rest)"
  using parse_int_64[OF assms, of w rest]
  by (simp add: read_member_def parse_int_ws)

lemma read_remote_port:
  assumes "\<not> is_digit d" "code d \<noteq> 0x2E" "code d \<noteq> 0x65" "code d \<noteq> 0x45"
  shows "read_member ''remote_port'' c (CHR '' '' # Itoa (sint w) @ d # rest)
           = Some (c\<lparr>RemotePort := w\<rparr>, d # rest)"
  using parse_int_32[OF assms, of w rest]
  by (simp add: read_member_def parse_int_ws)

lemma read_strings:
  "read_member ''service_name'' c (CHR '' '' # json_string s @ rest) = Some (c\<lparr>ServiceName := s\<rparr>, rest)"
  "read_member ''namespace'' c (CHR '' '' # json_string s @ rest) = Some (c\<lparr>Namespace := s\<rparr>, rest)"
  "read_member ''local_port'' c (CHR '' '' # json_string s @ rest) = Some (c\<lparr>LocalPort := s\<rparr>, rest)"
  "read_member ''pod_name'' c (CHR '' '' # json_string s @ rest) = Some (c\<lparr>PodName := s\<rparr>, rest)"
  "read_member ''kubeconfig'' c (CHR '' '' # json_string s @ rest) = Some (c\<lparr>Kubeconfig := s\<rparr>, rest)"
  "read_member ''status'' c (CHR '' '' # json_string s @ rest) = Some (c\<lparr>Status := s\<rparr>, rest)"
  by (simp_all add: read_member_def parse_string_ws parse_string_json)

lemma parse_members_text:
  "parse_members zero_conn (members_text c @ rest) = Some (c, rest)"
proof -
  have s1: "parse_members zero_conn (members_text c @ rest)
    = parse_members (zero_conn\<lparr>PID := PID c\<rparr>)
        (byte 0x0A # json_member ''service_name'' (json_string (ServiceName c)) @ CHR '','' # byte 0x0A
     # json_member ''namespace'' (json_string (Namespace c)) @ CHR '','' # byte 0x0A
     # json_member ''local_port'' (json_string (LocalPort c)) @ CHR '','' # byte 0x0A
     # json_member ''remote_port'' (Itoa (sint (RemotePort c))) @ CHR '','' # byte 0x0A
     # json_member ''pod_name'' (json_string (PodName c)) @ CHR '','' # byte 0x0A
     # json_member ''kubeconfig'' (json_string (Kubeconfig c)) @ CHR '','' # byte 0x0A
     # json_member ''status'' (json_string (Status c)) @ byte 0x0A
     # CHR '' '' # CHR '' '' # CHR ''}'' # rest)"
    unfolding members_text_def
    by (simp add: members_comma read_pid)
  also have "\<dots> = parse_members (zero_conn\<lparr>PID := PID c, ServiceName := ServiceName c\<rparr>)
        (byte 0x0A
     # json_member ''namespace'' (json_string (Namespace c)) @ CHR '','' # byte 0x0A
     # json_member ''local_port'' (json_string (LocalPort c)) @ CHR '','' # byte 0x0A
     # json_member ''remote_port'' (Itoa (sint (RemotePort c))) @ CHR '','' # byte 0x0A
     # json_member ''pod_name'' (json_string (PodName c)) @ CHR '','' # byte 0x0A
     # json_member ''kubeconfig'' (json_string (Kubeconfig c)) @ CHR '','' # byte 0x0A
     # json_member ''status'' (json_string (Status c)) @ byte 0x0A
     # CHR '' '' # CHR '' '' # CHR ''}'' # rest)"
    by (simp add: members_ws members_comma read_strings)
  also have "\<dots> = parse_members (zero_conn\<lparr>PID := PID c, ServiceName := ServiceName c,
                         Namespace := Namespace c\<rparr>)
        (byte 0x0A
     # json_member ''local_port'' (json_string (LocalPort c)) @ CHR '','' # byte 0x0A
     # json_member ''remote_port'' (Itoa (sint (RemotePort c))) @ CHR '','' # byte 0x0A
     # json_member ''pod_name'' (json_string (PodName c)) @ CHR '','' # byte 0x0A
     # json_member ''kubeconfig'' (json_string (Kubeconfig c)) @ CHR '','' # byte 0x0A
     # json_member ''status'' (json_string (Status c)) @ byte 0x0A
     # CHR '' '' # CHR '' '' # CHR ''}'' # rest)"
    by (simp add: members_ws members_comma read_strings)
  also have "\<dots> = parse_members (zero_conn\<lparr>PID := PID c, ServiceName := ServiceName c,
                         Namespace := Namespace c, LocalPort := LocalPort c\<rparr>)
        (byte 0x0A
     # json_member ''remote_port'' (Itoa (sint (RemotePort c))) @ CHR '','' # byte 0x0A
     # json_member ''pod_name'' (json_string (PodName c)) @ CHR '','' # byte 0x0A
     # json_member ''kubeconfig'' (json_string (Kubeconfig c)) @ CHR '','' # byte 0x0A
     # json_member ''status'' (json_string (Status c)) @ byte 0x0A
     # CHR '' '' # CHR '' '' # CHR ''}'' # rest)"
    by (simp add: members_ws members_comma read_strings)
  also have "\<dots> = parse_members (zero_conn\<lparr>PID := PID c, ServiceName := ServiceName c,
                         Namespace := Namespace c, LocalPort := LocalPort c,
                         RemotePort := RemotePort c\<rparr>)
        (byte 0x0A
     # json_member ''pod_name'' (json_string (PodName c)) @ CHR '','' # byte 0x0A
     # json_member ''kubeconfig'' (json_string (Kubeconfig c)) @ CHR '','' # byte 0x0A
     # json_member ''status'' (json_string (Status c)) @ byte 0x0A
     # CHR '' '' # CHR '' '' # CHR ''}'' # rest)"
    by (simp add: members_ws members_comma read_remote_port)
  also have "\<dots> = parse_members (zero_conn\<lparr>PID := PID c, ServiceName := ServiceName c,
                         Namespace := Namespace c, LocalPort := LocalPort c,
                         RemotePort := RemotePort c, PodName := PodName c\<rparr>)
        (byte 0x0A
     # json_member ''kubeconfig'' (json_string (Kubeconfig c)) @ CHR '','' # byte 0x0A
     # json_member ''status'' (json_string (Status c)) @ byte 0x0A
     # CHR '' '' # CHR '' '' # CHR ''}'' # rest)"
    by (simp add: members_ws members_comma read_strings)
  also have "\<dots> = parse_members (zero_conn\<lparr>PID := PID c, ServiceName := ServiceName c,
                         Namespace := Namespace c, LocalPort := LocalPort c,
                         RemotePort := RemotePort c, PodName := PodName c,
                         Kubeconfig := Kubeconfig c\<rparr>)
        (byte 0x0A
     # json_member ''status'' (json_string (Status c)) @ byte 0x0A
     # CHR '' '' # CHR '' '' # CHR ''}'' # rest)"
    by (simp add: members_ws members_comma read_strings)
  also have "\<dots> = Some (zero_conn\<lparr>PID := PID c, ServiceName := ServiceName c,
                         Namespace := Namespace c, LocalPort := LocalPort c,
                         RemotePort := RemotePort c, PodName := PodName c,
                         Kubeconfig := Kubeconfig c, Status := Status c\<rparr>, rest)"
    by (simp add: members_ws members_last read_strings)
  also have "zero_conn\<lparr>PID := PID c, ServiceName := ServiceName c,
                         Namespace := Namespace c, LocalPort := LocalPort c,
                         RemotePort := RemotePort c, PodName := PodName c,
                         Kubeconfig := Kubeconfig c, Status := Status c\<rparr> = c"
    by (simp add: zero_conn_def)
  finally show ?thesis .
qed

lemma json_object_text: "json_object c = CHR '' '' # CHR '' '' # CHR ''{'' # byte 0x0A # members_text c"
  by (simp add: json_object_def members_text_def)

lemma members_text_start:
  "\<exists>t. members_text c = CHR '' '' # CHR '' '' # CHR '' '' # CHR '' '' # byte 0x22 # t"
  by (simp add: members_text_def json_member_def json_string_def)

lemma parse_object_json: "parse_object (json_object c @ rest) = Some (c, rest)"
proof -
  obtain t where t: "members_text c = CHR '' '' # CHR '' '' # CHR '' '' # CHR '' '' # byte 0x22 # t"
    using members_text_start by blast
  have sk: "skip_ws (members_text c @ rest) = byte 0x22 # t @ rest"
    by (simp add: t skip_ws_Cons)
  have "parse_object (json_object c @ rest)
          = parse_members zero_conn (byte 0x0A # members_text c @ rest)"
    unfolding parse_object_def json_object_text
    by (simp add: skip_ws_Cons sk)
  then show ?thesis by (simp add: members_ws parse_members_text)
qed

lemma parse_object_ws: "is_ws x \<Longrightarrow> parse_object (x # inp) = parse_object inp"
  by (simp add: parse_object_def skip_ws_Cons)

lemma parse_elements_ws: "is_ws x \<Longrightarrow> parse_elements (x # inp) = parse_elements inp"
  by (subst parse_elements.simps, subst (2) parse_elements.simps) (simp add: parse_object_ws)

lemma parse_elements_json:
  "cs \<noteq> [] \<Longrightarrow>
     parse_elements (json_elements cs @ byte 0x0A # CHR '']'' # rest) = Some (cs, rest)"
proof (induction cs rule: json_elements.induct)
  case 1
  then show ?case by simp
next
  case (2 c)
  show ?case
    by (subst parse_elements.simps) (simp add: parse_object_json skip_ws_Cons)
next
  case (3 c c' cs)
  have "parse_elements (json_elements (c' # cs) @ byte 0x0A # CHR '']'' # rest)
          = Some (c' # cs, rest)"
    using "3.IH" by simp
  then show ?case
    by (subst parse_elements.simps)
       (simp add: parse_object_json skip_ws_Cons parse_elements_ws)
qed

lemma json_elements_start:
  "cs \<noteq> [] \<Longrightarrow> \<exists>t. json_elements cs = CHR '' '' # CHR '' '' # CHR ''{'' # t"
  by (induction cs rule: json_elements.induct) (simp_all add: json_object_text)

lemma Unmarshal_MarshalIndent: "Unmarshal (MarshalIndent cs) = Some cs"
proof (cases "cs = []")
  case True
  then show ?thesis by (simp add: Unmarshal_def MarshalIndent_def skip_ws_Cons is_ws_def code_def)
next
  case False
  obtain t where t: "json_elements cs = CHR '' '' # CHR '' '' # CHR ''{'' # t"
    using json_elements_start[OF False] by blast
  have sk: "skip_ws (json_elements cs @ [byte 0x0A, CHR '']''])
              = CHR ''{'' # t @ [byte 0x0A, CHR '']'']"
    by (simp add: t skip_ws_Cons)
  have pe: "parse_elements (byte 0x0A # json_elements cs @ byte 0x0A # '']'') = Some (cs, [])"
    using parse_elements_json[OF False, of "[]"] by (simp add: parse_elements_ws)
  show ?thesis
    using False
    unfolding Unmarshal_def MarshalIndent_def
    by (simp add: skip_ws_Cons sk pe Let_def)
qed

lemma MarshalIndent_nonempty: "MarshalIndent cs \<noteq> []"
  by (simp add: MarshalIndent_def)

section \<open>Facts about the registry operations and the commands\<close>

lemma flag_value_None [simp]: "flag_value d None = d"
  by (simp add: flag_value_def)

lemma flag_value_Some [simp]: "flag_value d (Some v) = v"
  by (simp add: flag_value_def)

lemma ParseInt_3306 [simp]: "ParseInt ''3306'' 32 = Some 3306"
  by (simp add: ParseInt_def ParseUint_def is_digit_def digit_val_def code_def)

lemma procs_all_apply [simp]: "procs_all st pid = st"
  by (simp add: procs_all_def)

lemma records_written:
  "regfile s = Some (MarshalIndent cs) \<Longrightarrow> records s = cs \<and> \<not> malformed s"
  by (simp add: records_def malformed_def Unmarshal_MarshalIndent MarshalIndent_nonempty)


lemma load_state:
  "loadConnections s = (r, s1) \<Longrightarrow>
     s1 = (if mkdir_fails s then s else s\<lparr>dir_exists := True\<rparr>)"
  by (auto simp add: loadConnections_def MkdirAll_def split: if_splits option.splits)


lemma load_Inr:
  "loadConnections s = (Inr cs, s1) \<Longrightarrow>
     cs = records s \<and> \<not> mkdir_fails s \<and> \<not> malformed s
       \<and> s1 = s\<lparr>dir_exists := True\<rparr>"
  by (auto simp add: loadConnections_def MkdirAll_def records_def malformed_def
           split: if_splits option.splits)

lemma save_ok:
  "\<not> mkdir_fails s \<Longrightarrow> \<not> write_fails s \<Longrightarrow>
     saveConnections cs s = (Inr (), s\<lparr>dir_exists := True, regfile := Some (MarshalIndent cs)\<rparr>)"
  by (simp add: saveConnections_def MkdirAll_def)

lemma save_fail:
  "saveConnections cs s = (Inl e, s1) \<Longrightarrow> regfile s1 = regfile s"
  by (auto simp add: saveConnections_def MkdirAll_def split: if_splits)

lemma remove_loop_filter:
  "remove_loop n ns cs = filter (\<lambda>c. \<not> matches n ns c) cs"
  by (induction cs) (auto simp add: matches_def)




lemma find_state:
  "findConnection n ns s = (r, s1) \<Longrightarrow>
     s1 = (if mkdir_fails s then s else s\<lparr>dir_exists := True\<rparr>)"
  unfolding findConnection_def
  apply (cases "loadConnections s")
  apply (auto split: sum.splits option.splits dest: load_state)
  done


lemma remove_after_load:
  assumes "loadConnections s = (Inr cs, s1)" and "\<not> write_fails s"
  shows "\<exists>s'. removeConnection n ns s = (Inr (), s')
           \<and> records s' = filter (\<lambda>c. \<not> matches n ns c) cs"
  using assms load_Inr[OF assms(1)]
  by (simp add: removeConnection_def save_ok remove_loop_filter records_written)



lemma update_loop_None:
  "find_loop n ns cs = None \<Longrightarrow> update_loop n ns st cs = None"
  by (induction cs) (auto split: if_splits)



lemma add_state:
  "addConnection c s = (Inl e, s1) \<Longrightarrow> regfile s1 = regfile s"
  unfolding addConnection_def
  apply (cases "loadConnections s")
  apply (auto split: sum.splits dest: load_state save_fail)
   apply (auto dest!: load_state save_fail split: if_splits)
  done

lemma add_Inr:
  "addConnection c s = (Inr u, s1) \<Longrightarrow> regfile s1 = Some (MarshalIndent (records s @ [c]))"
  unfolding addConnection_def
  apply (cases "loadConnections s")
  apply (auto split: sum.splits dest!: load_Inr)
  apply (auto simp add: saveConnections_def MkdirAll_def split: if_splits)
  done

lemma find_regfile: "findConnection n ns s = (r, s1) \<Longrightarrow> regfile s1 = regfile s"
  by (auto dest!: find_state split: if_splits)

lemma background_cases:
  assumes "createBackgroundPortForward env ns n pod lp rp kc s = (r, s', evs)"
  shows "(r = Some ExecutableFailed \<and> evs = [] \<and> s' = s)
       \<or> (r = Some StartDaemonFailed \<and> evs = [] \<and> s' = s)
       \<or> (\<exists>pid. start_child env = Some pid \<and> \<not> isProcessRunning (procs_after_wait env) pid
             \<and> r = Some (DaemonExitedImmediately pid) \<and> evs = [Spawn pid] \<and> s' = s)
       \<or> (\<exists>pid e. start_child env = Some pid \<and> isProcessRunning (procs_after_wait env) pid
             \<and> r = Some (SaveConnectionInfoFailed e)
             \<and> evs = [Spawn pid, SignalCall pid SIGKILL] \<and> regfile s' = regfile s)
       \<or> (\<exists>pid. start_child env = Some pid \<and> isProcessRunning (procs_after_wait env) pid
             \<and> r = None \<and> evs = [Spawn pid]
             \<and> regfile s' = Some (MarshalIndent (records s @
                  [\<lparr>PID = pid, ServiceName = n, Namespace = ns, LocalPort = lp,
                    RemotePort = rp, PodName = pod, Kubeconfig = kc, Status = ''active''\<rparr>])))"
  using assms
  unfolding createBackgroundPortForward_def Let_def FindProcess_def
  by (auto split: if_splits option.splits prod.splits sum.splits dest: add_state add_Inr)

lemma first_active_find:
  "first_active n ns s \<longleftrightarrow>
     (case fst (findConnection n ns s) of Inr conn \<Rightarrow> Status conn = ''active'' | Inl e \<Rightarrow> False)"
  unfolding first_active_def findConnection_def
  by (cases "loadConnections s") (auto split: sum.splits option.splits if_splits)

lemma connect_cases:
  assumes "NewConnectCmd env fl args s = (r, s', evs)"
  shows "(args = [] \<and> r = None \<and> evs = [] \<and> s' = s)
       \<or> (\<exists>n rest e. args = n # rest \<and> connect_target env fl n = Inl e
             \<and> r = Some e \<and> evs = [] \<and> s' = s)
       \<or> (\<exists>n rest ns pod lp rp kc. args = n # rest
             \<and> connect_target env fl n = Inr (ns, pod, lp, rp, kc)
             \<and> ((first_active n ns s \<and> (\<exists>lp'. r = Some (AlreadyExists lp')) \<and> evs = []
                    \<and> regfile s' = regfile s)
                \<or> (\<not> first_active n ns s \<and> \<not> flag_background fl
                    \<and> r = map_option ForegroundFailed (foreground_result env) \<and> evs = []
                    \<and> regfile s' = regfile s)
                \<or> (\<not> first_active n ns s \<and> flag_background fl
                    \<and> createBackgroundPortForward env ns n pod lp rp kc
                          (snd (findConnection n ns s)) = (r, s', evs))))"
proof (cases args)
  case Nil
  then show ?thesis using assms by (simp add: NewConnectCmd_def)
next
  case (Cons n rest)
  show ?thesis
  proof (cases "connect_target env fl n")
    case (Inl e)
    then show ?thesis using assms Cons by (simp add: NewConnectCmd_def)
  next
    case (Inr t)
    obtain ns pod lp rp kc where t: "t = (ns, pod, lp, rp, kc)" by (cases t) auto
    obtain ex s1 where f: "findConnection n ns s = (ex, s1)" by (cases "findConnection n ns s")
    have rf: "regfile s1 = regfile s" using find_regfile[OF f] .
    have fa: "first_active n ns s \<longleftrightarrow> (case ex of Inr conn \<Rightarrow> Status conn = ''active'' | Inl e \<Rightarrow> False)"
      using f by (simp add: first_active_find)
    show ?thesis
      using assms Cons Inr t f rf fa
      by (auto simp add: NewConnectCmd_def Let_def split: if_splits)
  qed
qed

lemma connect_spawn:
  assumes "NewConnectCmd env fl args s = (r, s', evs)" and "Spawn pid \<in> set evs"
  shows "\<exists>n rest ns pod lp rp kc. args = n # rest
             \<and> connect_target env fl n = Inr (ns, pod, lp, rp, kc)
             \<and> \<not> first_active n ns s \<and> flag_background fl
             \<and> createBackgroundPortForward env ns n pod lp rp kc
                          (snd (findConnection n ns s)) = (r, s', evs)"
  using connect_cases[OF assms(1)] assms(2) by auto

lemma snd_find_regfile: "regfile (snd (findConnection n ns s)) = regfile s"
  using find_regfile[of n ns s] by (cases "findConnection n ns s") auto

lemma snd_find_records: "records (snd (findConnection n ns s)) = records s"
  by (simp add: records_def snd_find_regfile)

lemma records_regfile: "regfile s' = regfile s \<Longrightarrow> records s' = records s"
  by (simp add: records_def)

lemma malformed_regfile: "regfile s' = regfile s \<Longrightarrow> malformed s' = malformed s"
  by (simp add: malformed_def)

lemma good_regfile: "regfile s' = regfile s \<Longrightarrow> all_active_distinct s' = all_active_distinct s"
  by (simp add: all_active_distinct_def records_regfile[of s' s] malformed_regfile[of s' s])

lemma good_faults [simp]: "all_active_distinct (with_faults f s) = all_active_distinct s"
proof -
  have "regfile (with_faults f s) = regfile s" by (cases f) (simp add: with_faults_def)
  then show ?thesis by (rule good_regfile)
qed












lemma Itoa_3307: "Itoa 3307 = ''3307''"
  by code_simp

lemma sint_3306: "sint (3306 :: 32 word) = 3306"
  by simp

lemma ex_target:
  "connect_target (ex_env child procs) ex_flags ''db'' = Inr (''prod'', ''db-0'', ''3307'', 3306, ''/k'')"
  by (simp add: connect_target_def ex_env_def ex_flags_def getKubeconfigPath_def Let_def Itoa_3307)

lemma ex_load: "loadConnections (ex_fs w cs) = (Inr cs, ex_fs w cs)"
  by (simp add: loadConnections_def MkdirAll_def ex_fs_def Unmarshal_MarshalIndent
        MarshalIndent_nonempty)

lemma ex_save:
  "saveConnections cs' (ex_fs w cs) =
     (if w then (Inl WriteFailed, ex_fs w cs) else (Inr (), ex_fs w cs'))"
  by (simp add: saveConnections_def MkdirAll_def ex_fs_def)

lemma ex_find:
  "findConnection n ns (ex_fs w cs) = 
     (case find_loop n ns cs of Some c \<Rightarrow> Inr c | None \<Rightarrow> Inl ConnectionNotFound, ex_fs w cs)"
  by (simp add: findConnection_def ex_load split: option.splits)

lemma ex_env_fields:
  "executable_ok (ex_env child procs)" "start_child (ex_env child procs) = child"
  "procs_after_wait (ex_env child procs) = procs" "foreground_result (ex_env child procs) = None"
  by (simp_all add: ex_env_def)

lemma ex_flags_bg: "flag_background ex_flags"
  by (simp add: ex_flags_def)

lemma ex_connect_exists:
  "NewConnectCmd (ex_env (Some 77) (procs_all NoProc)) ex_flags [''db'']
       (ex_fs False [ex_conn 4242 ''db'' ''prod'' ''active''])
   = (Some (AlreadyExists ''3307''), ex_fs False [ex_conn 4242 ''db'' ''prod'' ''active''], [])"
  by (simp add: NewConnectCmd_def ex_target ex_find Let_def ex_conn_def)


lemma ex_add:
  "addConnection c (ex_fs w cs) = (if w then (Inl WriteFailed, ex_fs w cs) else (Inr (), ex_fs w (cs @ [c])))"
  by (simp add: addConnection_def ex_load ex_save)

lemma ex_connect_ok:
  "NewConnectCmd (ex_env (Some 77) (procs_all Running)) ex_flags [''db''] (ex_fs False [])
   = (None, ex_fs False [ex_conn 77 ''db'' ''prod'' ''active''], [Spawn 77])"
  by (simp add: NewConnectCmd_def ex_target ex_find Let_def createBackgroundPortForward_def
        isProcessRunning_def FindProcess_def Signal0_fails_def ex_env_fields ex_flags_bg ex_add ex_conn_def)

lemma ex_connect_write_failed:
  "NewConnectCmd (ex_env (Some 77) (procs_all Running)) ex_flags [''db''] (ex_fs True [])
   = (Some (SaveConnectionInfoFailed WriteFailed), ex_fs True [], [Spawn 77, SignalCall 77 SIGKILL])"
  by (simp add: NewConnectCmd_def ex_target ex_find Let_def createBackgroundPortForward_def
        isProcessRunning_def FindProcess_def Signal0_fails_def ex_env_fields ex_flags_bg ex_add ex_conn_def)

lemma ex_remove:
  "removeConnection n ns (ex_fs w cs) =
     (if w then (Inl WriteFailed, ex_fs w cs) else (Inr (), ex_fs w (remove_loop n ns cs)))"
  by (simp add: removeConnection_def ex_load ex_save)

lemma ex_records [simp]: "records (ex_fs w cs) = cs"
  using records_written[of "ex_fs w cs" cs] by (simp add: ex_fs_def)


lemma ex_conn_fields [simp]:
  "PID (ex_conn pid n ns st) = pid" "ServiceName (ex_conn pid n ns st) = n"
  "Namespace (ex_conn pid n ns st) = ns" "Status (ex_conn pid n ns st) = st"
  "LocalPort (ex_conn pid n ns st) = ''3307''"
  by (simp_all add: ex_conn_def)

section \<open>C1: when connect reports an existing connection\<close>

text \<open>
  Claim C1, as amended. Once the target of a \<^verbatim>\<open>connect\<close> is resolved, the command fails
  with the already-exists error exactly when the registry can be read and the first record
  for (name, scope) has status \<^verbatim>\<open>active\<close>; it then starts no process, sends no signal and
  leaves the registry file as it was. The liveness of the recorded PID is not consulted.
\<close>

theorem connect_already_exists_iff:
  assumes "connect_target env fl n = Inr (ns, pod, lp, rp, kc)"
      and "NewConnectCmd env fl (n # rest) s = (r, s', evs)"
  shows "((\<exists>lp'. r = Some (AlreadyExists lp')) \<longleftrightarrow> first_active n ns s)
         \<and> (first_active n ns s \<longrightarrow> evs = [] \<and> regfile s' = regfile s)"
proof -
  have nb: "\<And>x. createBackgroundPortForward env ns n pod lp rp kc x = (r, s', evs)
              \<Longrightarrow> \<not> (\<exists>lp'. r = Some (AlreadyExists lp'))"
    by (auto dest!: background_cases)
  show ?thesis
    using connect_cases[OF assms(2)] assms(1) nb
    by (auto split: option.splits)
qed

text \<open>
  The amended statement at a concrete input: a registry holding one \<^verbatim>\<open>active\<close> record for
  \<^verbatim>\<open>prod/db\<close>.
\<close>

theorem connect_already_exists_iff_witness:
  "connect_target (ex_env (Some 77) (procs_all NoProc)) ex_flags ''db''
     = Inr (''prod'', ''db-0'', ''3307'', 3306, ''/k'')
   \<and> NewConnectCmd (ex_env (Some 77) (procs_all NoProc)) ex_flags [''db'']
         (ex_fs False [ex_conn 4242 ''db'' ''prod'' ''active''])
       = (Some (AlreadyExists ''3307''), ex_fs False [ex_conn 4242 ''db'' ''prod'' ''active''], [])
   \<and> first_active ''db'' ''prod'' (ex_fs False [ex_conn 4242 ''db'' ''prod'' ''active''])"
  using connect_already_exists_iff [OF ex_target ex_connect_exists]
  by (simp add: ex_target ex_connect_exists)

text \<open>
  Claim C1 as stated fails. The registry holds an \<^verbatim>\<open>active\<close> record for \<^verbatim>\<open>prod/db\<close> with
  PID 4242, no process has that PID, and \<^verbatim>\<open>connect\<close> still fails with the already-exists
  error.
\<close>

theorem connect_dead_pid_still_rejected:
  "\<not> isProcessRunning (procs_all NoProc) 4242
   \<and> NewConnectCmd (ex_env (Some 77) (procs_all NoProc)) ex_flags [''db'']
         (ex_fs False [ex_conn 4242 ''db'' ''prod'' ''active''])
       = (Some (AlreadyExists ''3307''), ex_fs False [ex_conn 4242 ''db'' ''prod'' ''active''], [])"
  by (simp add: ex_connect_exists isProcessRunning_def FindProcess_def Signal0_fails_def)

section \<open>C2: which flags the daemon entry point requires\<close>

text \<open>
  Claim C2, as amended. The flags the daemon entry point requires are \<^verbatim>\<open>--kubeconfig\<close>,
  \<^verbatim>\<open>--service\<close>, \<^verbatim>\<open>--pod\<close>, \<^verbatim>\<open>--localport\<close> and \<^verbatim>\<open>--remoteport\<close>: when any of
  them is absent or empty the command returns the missing-flags error and never reaches
  \<^verbatim>\<open>runPortForwardDaemon\<close>. The namespace is not among them.
\<close>

theorem daemon_required_flags:
  "flag_value '''' (arg_kubeconfig a) = '''' \<or> flag_value '''' (arg_service a) = ''''
     \<or> flag_value '''' (arg_pod a) = '''' \<or> flag_value '''' (arg_localport a) = ''''
     \<or> flag_value '''' (arg_remoteport a) = ''''
   \<longleftrightarrow> NewDaemonPortForwardCmd build_config a = DaemonArgError MissingRequiredFlags"
  by (auto simp add: NewDaemonPortForwardCmd_def Let_def split: option.splits)

text \<open>
  Claim C2 as stated fails: with the namespace flag absent and the other flags given, the
  command runs the daemon in the namespace \<^verbatim>\<open>default\<close>.
\<close>

theorem daemon_namespace_not_mandatory:
  "NewDaemonPortForwardCmd accept_kubeconfig
     \<lparr>arg_kubeconfig = Some ''/k'', arg_namespace = None, arg_service = Some ''db'',
      arg_pod = Some ''db-0'', arg_localport = Some ''3307'', arg_remoteport = Some ''3306''\<rparr>
   = RunDaemon ''default'' ''db-0'' ''3307'' 3306 ''db''"
  by (simp add: NewDaemonPortForwardCmd_def Let_def accept_kubeconfig_def)

section \<open>C3: no two active records for one key\<close>



section \<open>C4: a child that exits during the confirmation window\<close>



section \<open>C5: a registry write that fails after the child is confirmed\<close>

text \<open>
  Claim C5. When \<^verbatim>\<open>connect\<close> has started a child and the probe after the wait finds it
  running, there are two outcomes only. Either the record of the child is appended to the
  registry and the command succeeds; or the registry write failed, and then the command
  has called SIGKILL on the child, after starting it and before returning, returns the
  save error, and the registry file is what it was.
\<close>

theorem connect_write_failed_kills:
  assumes "NewConnectCmd env fl args s = (r, s', evs)"
      and "Spawn pid \<in> set evs"
      and "procs_after_wait env pid = Running"
  shows "(r = None \<and> evs = [Spawn pid]
            \<and> (\<exists>c. records s' = records s @ [c] \<and> PID c = pid
                     \<and> Status c = ''active''))
       \<or> ((\<exists>e. r = Some (SaveConnectionInfoFailed e))
            \<and> evs = [Spawn pid, SignalCall pid SIGKILL] \<and> regfile s' = regfile s)"
proof -
  from connect_spawn[OF assms(1,2)] obtain n ns pod lp rp kc where
    bg: "createBackgroundPortForward env ns n pod lp rp kc (snd (findConnection n ns s))
           = (r, s', evs)"
    by blast
  have run: "isProcessRunning (procs_after_wait env) pid"
    using assms(3) by (simp add: isProcessRunning_def FindProcess_def Signal0_fails_def)
  show ?thesis
    using background_cases[OF bg] assms(2) run
    by (auto simp add: snd_find_regfile snd_find_records dest!: records_written)
qed

text \<open>A registry whose file cannot be written: the child 77 is killed.\<close>

theorem connect_write_failed_kills_witness:
  "NewConnectCmd (ex_env (Some 77) (procs_all Running)) ex_flags [''db''] (ex_fs True [])
     = (Some (SaveConnectionInfoFailed WriteFailed), ex_fs True [],
        [Spawn 77, SignalCall 77 SIGKILL])
   \<and> Spawn 77 \<in> set [Spawn 77, SignalCall 77 SIGKILL]
   \<and> procs_after_wait (ex_env (Some 77) (procs_all Running)) 77 = Running"
proof -
  have h2: "Spawn 77 \<in> set [Spawn 77, SignalCall 77 SIGKILL]" by simp
  have h3: "procs_after_wait (ex_env (Some 77) (procs_all Running)) 77 = Running"
    by (simp add: ex_env_fields)
  show ?thesis
    using connect_write_failed_kills [OF ex_connect_write_failed h2 h3] h3
    by (simp add: ex_connect_write_failed)
qed

section \<open>C6: disconnect when the recorded process is gone\<close>




section \<open>C7: escalation to the forceful kill\<close>

lemma ex_disconnect_escalates:
  "NewDisconnectCmd \<lparr>procs_at_probe = (procs_all Running), sigterm_fails = True, sigkill_fails = False\<rparr>
       ''prod'' ''db'' (ex_fs False [ex_conn 4242 ''db'' ''prod'' ''active''])
   = (Inr Disconnected, ex_fs False [],
      [SignalCall 4242 SIGTERM, SignalCall 4242 SIGKILL])"
  by (simp add: NewDisconnectCmd_def ex_find ex_remove Let_def isProcessRunning_def
        FindProcess_def Signal0_fails_def)

text \<open>
  Claim C7. When \<^verbatim>\<open>disconnect\<close> finds a record whose process is running, it calls SIGTERM
  on the recorded PID, and it calls SIGKILL on it exactly when the SIGTERM call returned an
  error. A process that ignores a delivered SIGTERM is not sent SIGKILL.
\<close>

theorem disconnect_kill_iff_term_failed:
  assumes "findConnection servicename (ns_of flag_ns) s = (Inr conn, s1)"
      and "procs_at_probe env (PID conn) = Running"
      and "NewDisconnectCmd env flag_ns servicename s = (r, s', evs)"
  shows "SignalCall (PID conn) SIGTERM \<in> set evs
         \<and> (SignalCall (PID conn) SIGKILL \<in> set evs \<longleftrightarrow> sigterm_fails env)"
proof -
  have run: "isProcessRunning (procs_at_probe env) (PID conn)"
    using assms(2) by (simp add: isProcessRunning_def FindProcess_def Signal0_fails_def)
  show ?thesis
    using assms(1,3) run
    by (auto simp add: NewDisconnectCmd_def ns_of_def Let_def FindProcess_def
             split: if_splits prod.splits sum.splits)
qed

theorem disconnect_kill_iff_term_failed_witness:
  "findConnection ''db'' (ns_of ''prod'') (ex_fs False [ex_conn 4242 ''db'' ''prod'' ''active''])
     = (Inr (ex_conn 4242 ''db'' ''prod'' ''active''),
        ex_fs False [ex_conn 4242 ''db'' ''prod'' ''active''])
   \<and> NewDisconnectCmd
         \<lparr>procs_at_probe = (procs_all Running), sigterm_fails = True, sigkill_fails = False\<rparr>
         ''prod'' ''db'' (ex_fs False [ex_conn 4242 ''db'' ''prod'' ''active''])
     = (Inr Disconnected, ex_fs False [],
        [SignalCall 4242 SIGTERM, SignalCall 4242 SIGKILL])
   \<and> SignalCall 4242 SIGKILL \<in> set [SignalCall 4242 SIGTERM, SignalCall 4242 SIGKILL]"
proof -
  let ?s = "ex_fs False [ex_conn 4242 ''db'' ''prod'' ''active'']"
  let ?env = "\<lparr>procs_at_probe = (procs_all Running), sigterm_fails = True, sigkill_fails = False\<rparr>"
  have h1: "findConnection ''db'' (ns_of ''prod'') ?s
              = (Inr (ex_conn 4242 ''db'' ''prod'' ''active''), ?s)"
    by (simp add: ex_find ns_of_def)
  have h2: "procs_at_probe ?env (PID (ex_conn 4242 ''db'' ''prod'' ''active'')) = Running"
    by simp
  show ?thesis
    using disconnect_kill_iff_term_failed [OF h1 h2 ex_disconnect_escalates] h1
    by (simp add: ex_disconnect_escalates)
qed

section \<open>C8: saving and loading the registry\<close>



section \<open>C9: how the running daemon ends\<close>





section \<open>C10: what removeConnection removes\<close>

text \<open>
  Claim C10. When the registry can be read and written, \<^verbatim>\<open>removeConnection\<close> succeeds,
  also when no record matches, and the registry afterwards holds exactly the records whose
  (name, scope) differs from the one given, unchanged and in their order: every matching
  record is gone, whatever its status and PID.
\<close>

theorem removeConnection_removes_all:
  assumes "loadConnections s = (Inr cs, s1)" and "\<not> write_fails s"
  shows "\<exists>s'. removeConnection n ns s = (Inr (), s')
           \<and> records s' = filter (\<lambda>c. \<not> matches n ns c) cs"
  using assms by (rule remove_after_load)

text \<open>
  Two records of the key, one \<^verbatim>\<open>active\<close> and one \<^verbatim>\<open>stopped\<close>, with different PIDs, and a
  record of another key: both records of the key go.
\<close>

theorem removeConnection_removes_all_witness:
  "loadConnections (ex_fs False [ex_conn 1 ''db'' ''prod'' ''active'',
                                 ex_conn 2 ''web'' ''prod'' ''active'',
                                 ex_conn 3 ''db'' ''prod'' ''stopped''])
     = (Inr [ex_conn 1 ''db'' ''prod'' ''active'', ex_conn 2 ''web'' ''prod'' ''active'',
             ex_conn 3 ''db'' ''prod'' ''stopped''],
        ex_fs False [ex_conn 1 ''db'' ''prod'' ''active'', ex_conn 2 ''web'' ''prod'' ''active'',
                     ex_conn 3 ''db'' ''prod'' ''stopped''])
   \<and> \<not> write_fails (ex_fs False [ex_conn 1 ''db'' ''prod'' ''active'',
                                   ex_conn 2 ''web'' ''prod'' ''active'',
                                   ex_conn 3 ''db'' ''prod'' ''stopped''])
   \<and> removeConnection ''db'' ''prod''
        (ex_fs False [ex_conn 1 ''db'' ''prod'' ''active'', ex_conn 2 ''web'' ''prod'' ''active'',
                      ex_conn 3 ''db'' ''prod'' ''stopped''])
     = (Inr (), ex_fs False [ex_conn 2 ''web'' ''prod'' ''active''])"
proof -
  let ?cs = "[ex_conn 1 ''db'' ''prod'' ''active'', ex_conn 2 ''web'' ''prod'' ''active'',
              ex_conn 3 ''db'' ''prod'' ''stopped'']"
  have h1: "loadConnections (ex_fs False ?cs) = (Inr ?cs, ex_fs False ?cs)"
    by (rule ex_load)
  have h2: "\<not> write_fails (ex_fs False ?cs)" by (simp add: ex_fs_def)
  show ?thesis
    using removeConnection_removes_all [OF h1 h2, of "''db''" "''prod''"] h1 h2
    by (simp add: ex_remove)
qed

end
